theory Spec2Isabelle
  imports Complex_Main
begin

section \<open>Diffusion-class finite-element term kernels (termsLaplace.c)\<close>

text \<open>
  The C file computes, cell by cell, the local matrices, vectors and scalars of the
  Laplace, diffusion, permeability, coupling and surface-flux terms.

  Numbers. The code computes in \<^verbatim>\<open>float64\<close>. The definitions below are
  polymorphic in the number type and ask of it only the operations they call
  (\<open>0\<close>, \<open>+\<close>, \<open>*\<close>, and \<open>1\<close>, \<open>/\<close> for the
  flux average), with no law assumed, and they keep the order of the operations
  of the code. A theorem then names the laws it needs in the sort of its type
  variable: a theorem over \<open>{zero,plus,times}\<close> holds of any arithmetic, IEEE
  doubles included; a theorem over a (commutative) semiring, an ordered ring or
  a field is about exact arithmetic, where rounding is not modelled. The type
  \<open>float64\<close> below is the arithmetic of the doubles, for the statements where
  the rounding decides.

  Integers. Counts, dimensions and loop indices (\<^verbatim>\<open>int32\<close> in C) are natural
  numbers: every index the code forms from them is a sum of products of
  non-negative values, and no claim depends on 32-bit overflow. The flags
  \<^verbatim>\<open>isDiff\<close> and \<^verbatim>\<open>mode\<close> are compared with constants and are integers.

  Memory. A buffer is the list of its values and a pointer into it is an
  offset. Reads are \<open>xs ! i\<close> and writes are \<open>xs[i := v]\<close>; the code checks no
  bound, so theorems about results state the sizes of the buffers they need.
  Distinct arguments are distinct allocations.
\<close>

subsection \<open>Tensor buffers\<close>

text \<open>
  Modelled from the spec: the declaration of \<^verbatim>\<open>FMField\<close> (fmfield.h) is not in
  the sources at hand. Section 3 of the specification gives its attributes:
  cellCount, levelCount, rowCount, colCount and a raw value buffer, stored
  contiguously, with a cursor that is positioned onto one cell. \<open>val0\<close> is the
  allocation and \<open>val\<close> the cursor, as an offset into \<open>val0\<close>.
\<close>

record 'a FMField =
  nCell :: nat
  nLev :: nat
  nRow :: nat
  nCol :: nat
  val0 :: "'a list"
  val :: nat

text \<open>Modelled from the spec: the size of one cell, levelCount matrices of
  rowCount by colCount values stored contiguously.\<close>

definition cellSize :: "'a FMField \<Rightarrow> nat" where
  "cellSize f = nLev f * nRow f * nCol f"

text \<open>Modelled from the spec: the cursor macros of fmfield.h. \<open>FMF_SetCell\<close>
  positions the cursor onto cell \<open>n\<close>; \<open>FMF_PtrLevel\<close> is the address of level
  \<open>n\<close> of the current cell; \<open>FMF_PtrCurrent\<close> is the cursor; \<open>FMF_PtrFirst\<close> is
  the start of the allocation.\<close>

definition FMF_SetCell :: "'a FMField \<Rightarrow> nat \<Rightarrow> 'a FMField" where
  "FMF_SetCell obj n = obj\<lparr>val := n * cellSize obj\<rparr>"

definition FMF_PtrLevel :: "'a FMField \<Rightarrow> nat \<Rightarrow> nat" where
  "FMF_PtrLevel obj n = val obj + n * nCol obj * nRow obj"

definition FMF_PtrCurrent :: "'a FMField \<Rightarrow> nat" where
  "FMF_PtrCurrent obj = val obj"

definition FMF_PtrFirst :: "'a FMField \<Rightarrow> nat" where
  "FMF_PtrFirst obj = 0"

text \<open>A \<^verbatim>\<open>float64 *\<close> argument such as \<^verbatim>\<open>coef->val\<close>: the buffer and the offset.\<close>

type_synonym 'a ptr = "'a list \<times> nat"

definition ptr_val :: "'a FMField \<Rightarrow> 'a ptr" where
  "ptr_val obj = (val0 obj, val obj)"

definition deref :: "'a ptr \<Rightarrow> nat \<Rightarrow> 'a" where
  "deref p i = fst p ! (snd p + i)"

text \<open>Entry \<open>(r, c)\<close> of level \<open>lev\<close> of cell \<open>cell\<close>, read from the allocation: how
  the theorems below read a result or an input.\<close>

definition entry :: "'a FMField \<Rightarrow> nat \<Rightarrow> nat \<Rightarrow> nat \<Rightarrow> nat \<Rightarrow> 'a" where
  "entry f cell lev r c =
     val0 f ! (cell * cellSize f + lev * (nRow f * nCol f) + r * nCol f + c)"

text \<open>The buffer holds exactly its \<open>nCell\<close> cells.\<close>

definition sized :: "'a FMField \<Rightarrow> bool" where
  "sized f = (length (val0 f) = nCell f * cellSize f)"

text \<open>The \<open>n\<close> values from the cursor lie inside the allocation.\<close>

definition in_buffer :: "'a FMField \<Rightarrow> nat \<Rightarrow> bool" where
  "in_buffer f n = (val f + n \<le> length (val0 f))"

subsection \<open>Matrix primitives\<close>

text \<open>\<open>store_range buf p n f\<close> writes \<open>f 0, ..., f (n - 1)\<close> to \<open>buf[p], ...,
  buf[p + n - 1]\<close>; like \<open>xs[i := v]\<close>, it leaves the length alone.\<close>

definition store_range :: "'a list \<Rightarrow> nat \<Rightarrow> nat \<Rightarrow> (nat \<Rightarrow> 'a) \<Rightarrow> 'a list" where
  "store_range buf p n f =
     map (\<lambda>k. if p \<le> k \<and> k < p + n then f (k - p) else buf ! k) [0..<length buf]"

text \<open>Modelled from the spec: \<^verbatim>\<open>fmf_createAlloc\<close> (fmfield.c) is not in the sources
  at hand. It allocates a buffer of the given shape (section 3, lifecycle of
  scratch buffers); the specification does not give the initial contents, which
  are zero here.\<close>

definition fmf_createAlloc :: "nat \<Rightarrow> nat \<Rightarrow> nat \<Rightarrow> nat \<Rightarrow> 'a::zero FMField" where
  "fmf_createAlloc nc nl nr ncol =
     \<lparr>nCell = nc, nLev = nl, nRow = nr, nCol = ncol,
      val0 = replicate (nc * nl * nr * ncol) 0, val = 0\<rparr>"

text \<open>Modelled from the spec: \<^verbatim>\<open>fmf_fillC\<close> is not in the sources at hand. Section
  4.1, fill: sets every entry to the value; the entries of a positioned buffer
  are those of its current cell.\<close>

definition fmf_fillC :: "'a FMField \<Rightarrow> 'a \<Rightarrow> 'a FMField" where
  "fmf_fillC obj v = obj\<lparr>val0 := store_range (val0 obj) (val obj) (cellSize obj) (\<lambda>k. v)\<rparr>"

text \<open>Modelled from the spec: \<^verbatim>\<open>fmf_mulC\<close> is not in the sources at hand. Section
  4.1, scale by a single scalar: in-place elementwise multiply of the current
  cell.\<close>

definition fmf_mulC :: "'a::times FMField \<Rightarrow> 'a \<Rightarrow> 'a FMField" where
  "fmf_mulC obj c =
     obj\<lparr>val0 := store_range (val0 obj) (val obj) (cellSize obj)
                   (\<lambda>k. val0 obj ! (val obj + k) * c)\<rparr>"

text \<open>Modelled from the spec: \<^verbatim>\<open>fmf_mulAF\<close> is not in the sources at hand. Section
  4.1, scale by one scalar per slice; the table of section 4.3 fixes the slice:
  the coefficient \<open>coef_q\<close> of quadrature point \<open>q\<close> multiplies level \<open>q\<close>. The
  result goes to \<open>objR\<close>; the code also calls it with \<open>objA\<close> and \<open>objR\<close> the same
  buffer, where each value is read before it is overwritten.\<close>

definition fmf_mulAF :: "'a::times FMField \<Rightarrow> 'a FMField \<Rightarrow> 'a ptr \<Rightarrow> 'a FMField" where
  "fmf_mulAF objR objA w =
     objR\<lparr>val0 := store_range (val0 objR) (val objR) (nLev objR * (nRow objR * nCol objR))
       (\<lambda>k. let il = k div (nRow objR * nCol objR); i = k mod (nRow objR * nCol objR)
            in val0 objA ! (val objA + nCol objA * nRow objA * il + i) * deref w il)\<rparr>"

text \<open>Modelled from the spec: \<^verbatim>\<open>fmf_sumLevelsMulF\<close> is not in the sources at hand.
  Section 4.1, reduceWeighted: the per-level matrices of \<open>objA\<close>, each multiplied
  by the weight of its level, are summed into the current cell of \<open>objR\<close> (one
  matrix per cell). The cell becomes that sum, accumulated from zero in the
  order of the levels: by section 4.1 the operation is the quadrature sum, and
  the table of section 4.3 gives the result of every evaluator as that sum
  alone, with no term for what the output held.\<close>

definition fmf_sumLevelsMulF ::
  "'a::{zero,plus,times} FMField \<Rightarrow> 'a FMField \<Rightarrow> 'a ptr \<Rightarrow> 'a FMField" where
  "fmf_sumLevelsMulF objR objA w =
     objR\<lparr>val0 := store_range (val0 objR) (val objR) (nRow objR * nCol objR)
       (\<lambda>i. fold (\<lambda>il acc. acc + val0 objA ! (val objA + nCol objA * nRow objA * il + i) * deref w il)
                 [0..<nLev objA] 0)\<rparr>"

subsection \<open>Kernel builders\<close>

datatype ret = RET_OK | RET_Fail

text \<open>
  \<^verbatim>\<open>laplace_build_gtg\<close>, lines 11 to 60. The output is zero-filled (line 20)
  before the switch on the number of rows of \<open>gc\<close>. \<^verbatim>\<open>pout += nCol\<close> at the end of
  row \<open>ir\<close> makes the row pointer \<open>pout + ir * nCol\<close>. The default branch reports
  \<^verbatim>\<open>ERR_Switch\<close> and returns \<^verbatim>\<open>RET_Fail\<close>.
\<close>

definition laplace_build_gtg ::
  "'a::{zero,plus,times} FMField \<Rightarrow> 'a FMField \<Rightarrow> ret \<times> 'a FMField" where
  "laplace_build_gtg out gc =
     (let nEP = nCol gc; nQP = nLev gc; nC = nCol out;
          out1 = fmf_fillC out 0;
          g = val0 gc
      in if nRow gc = 3 then
           (RET_OK, out1\<lparr>val0 :=
              fold (\<lambda>iqp ob.
                let pg1 = FMF_PtrLevel gc iqp; pg2 = pg1 + nEP; pg3 = pg2 + nEP;
                    pout = FMF_PtrLevel out1 iqp
                in fold (\<lambda>ir ob.
                     fold (\<lambda>ic ob.
                       ob[pout + ir * nC + ic :=
                            g ! (pg1 + ir) * g ! (pg1 + ic) + g ! (pg2 + ir) * g ! (pg2 + ic)
                            + g ! (pg3 + ir) * g ! (pg3 + ic)])
                       [0..<nEP] ob)
                     [0..<nEP] ob)
                [0..<nQP] (val0 out1)\<rparr>)
         else if nRow gc = 2 then
           (RET_OK, out1\<lparr>val0 :=
              fold (\<lambda>iqp ob.
                let pg1 = FMF_PtrLevel gc iqp; pg2 = pg1 + nEP;
                    pout = FMF_PtrLevel out1 iqp
                in fold (\<lambda>ir ob.
                     fold (\<lambda>ic ob.
                       ob[pout + ir * nC + ic :=
                            g ! (pg1 + ir) * g ! (pg1 + ic) + g ! (pg2 + ir) * g ! (pg2 + ic)])
                       [0..<nEP] ob)
                     [0..<nEP] ob)
                [0..<nQP] (val0 out1)\<rparr>)
         else (RET_Fail, out1))"

text \<open>
  \<^verbatim>\<open>laplace_act_g_m\<close>, lines 70 to 140. The matrix slice is level \<open>iqp\<close> of \<open>mtx\<close>
  when \<open>mtx\<close> has \<open>nQP\<close> levels and the current slice otherwise. For column \<open>ic\<close>
  the sums over \<open>ik\<close> are stored at \<^verbatim>\<open>pout[ic+0]\<close>, \<^verbatim>\<open>pout[ic+1]\<close>, \<^verbatim>\<open>pout[ic+2]\<close>.
\<close>

definition laplace_act_g_m ::
  "'a::{zero,plus,times} FMField \<Rightarrow> 'a FMField \<Rightarrow> 'a FMField \<Rightarrow> ret \<times> 'a FMField" where
  "laplace_act_g_m out gc mtx =
     (let nEP = nCol gc; nQP = nLev gc; nC = nCol mtx;
          g = val0 gc; m = val0 mtx
      in if nRow gc = 3 then
           (RET_OK, out\<lparr>val0 :=
              fold (\<lambda>iqp ob.
                let pg1 = FMF_PtrLevel gc iqp; pg2 = pg1 + nEP; pg3 = pg2 + nEP;
                    pout = FMF_PtrLevel out iqp;
                    pmtx = (if nLev mtx = nQP then FMF_PtrLevel mtx iqp else FMF_PtrCurrent mtx)
                in fold (\<lambda>ic ob.
                     let (val1, val2, val3) =
                           fold (\<lambda>ik (v1, v2, v3).
                                  (v1 + g ! (pg1 + ik) * m ! (pmtx + (ic + nC * ik)),
                                   v2 + g ! (pg2 + ik) * m ! (pmtx + (ic + nC * ik)),
                                   v3 + g ! (pg3 + ik) * m ! (pmtx + (ic + nC * ik))))
                             [0..<nEP] (0, 0, 0)
                     in ((ob[pout + (ic + 0) := val1])[pout + (ic + 1) := val2])
                          [pout + (ic + 2) := val3])
                     [0..<nC] ob)
                [0..<nQP] (val0 out)\<rparr>)
         else if nRow gc = 2 then
           (RET_OK, out\<lparr>val0 :=
              fold (\<lambda>iqp ob.
                let pg1 = FMF_PtrLevel gc iqp; pg2 = pg1 + nEP;
                    pout = FMF_PtrLevel out iqp;
                    pmtx = (if nLev mtx = nQP then FMF_PtrLevel mtx iqp else FMF_PtrCurrent mtx)
                in fold (\<lambda>ic ob.
                     let (val1, val2) =
                           fold (\<lambda>ik (v1, v2).
                                  (v1 + g ! (pg1 + ik) * m ! (pmtx + (ic + nC * ik)),
                                   v2 + g ! (pg2 + ik) * m ! (pmtx + (ic + nC * ik))))
                             [0..<nEP] (0, 0)
                     in (ob[pout + (ic + 0) := val1])[pout + (ic + 1) := val2])
                     [0..<nC] ob)
                [0..<nQP] (val0 out)\<rparr>)
         else (RET_Fail, out))"

text \<open>
  \<^verbatim>\<open>laplace_act_gt_m\<close>, lines 149 to 201: row \<open>iep\<close> of the output slice starts at
  \<open>nCol * iep\<close>, and the matrix slice is always level \<open>iqp\<close> of \<open>mtx\<close>.
\<close>

definition laplace_act_gt_m ::
  "'a::{zero,plus,times} FMField \<Rightarrow> 'a FMField \<Rightarrow> 'a FMField \<Rightarrow> ret \<times> 'a FMField" where
  "laplace_act_gt_m out gc mtx =
     (let nEP = nCol gc; nQP = nLev gc; nC = nCol mtx;
          g = val0 gc; m = val0 mtx
      in if nRow gc = 3 then
           (RET_OK, out\<lparr>val0 :=
              fold (\<lambda>iqp ob.
                let pg1 = FMF_PtrLevel gc iqp; pg2 = pg1 + nEP; pg3 = pg2 + nEP;
                    pmtx = FMF_PtrLevel mtx iqp
                in fold (\<lambda>iep ob.
                     let pout = FMF_PtrLevel out iqp + nC * iep
                     in fold (\<lambda>ii ob.
                          ob[pout + ii :=
                               g ! (pg1 + iep) * m ! (pmtx + (0 * nC + ii))
                               + g ! (pg2 + iep) * m ! (pmtx + (1 * nC + ii))
                               + g ! (pg3 + iep) * m ! (pmtx + (2 * nC + ii))])
                          [0..<nC] ob)
                     [0..<nEP] ob)
                [0..<nQP] (val0 out)\<rparr>)
         else if nRow gc = 2 then
           (RET_OK, out\<lparr>val0 :=
              fold (\<lambda>iqp ob.
                let pg1 = FMF_PtrLevel gc iqp; pg2 = pg1 + nEP;
                    pmtx = FMF_PtrLevel mtx iqp
                in fold (\<lambda>iep ob.
                     let pout = FMF_PtrLevel out iqp + nC * iep
                     in fold (\<lambda>ii ob.
                          ob[pout + ii :=
                               g ! (pg1 + iep) * m ! (pmtx + (0 * nC + ii))
                               + g ! (pg2 + iep) * m ! (pmtx + (1 * nC + ii))])
                          [0..<nC] ob)
                     [0..<nEP] ob)
                [0..<nQP] (val0 out)\<rparr>)
         else (RET_Fail, out))"

subsection \<open>Matrix products and gathering\<close>

text \<open>Faults of the embedding that are no return value of the C code:
  \<open>ShapeFault\<close> is the programming-error fault of a product with incompatible
  shapes (section 4.1), \<open>ZeroDivide\<close> marks a division whose divisor is zero.\<close>

datatype error = ShapeFault | ZeroDivide

definition bind_fault :: "error + 'x \<Rightarrow> ('x \<Rightarrow> error + 'y) \<Rightarrow> error + 'y" where
  "bind_fault m f = (case m of Inl e \<Rightarrow> Inl e | Inr x \<Rightarrow> f x)"

text \<open>Entry \<open>(i, k)\<close> of the slice of \<open>A\<close> at offset \<open>p\<close>, transposed when \<open>t\<close>.\<close>

definition mat_get :: "'a FMField \<Rightarrow> nat \<Rightarrow> bool \<Rightarrow> nat \<Rightarrow> nat \<Rightarrow> 'a" where
  "mat_get A p t i k =
     (if t then val0 A ! (p + (k * nCol A + i)) else val0 A ! (p + (i * nCol A + k)))"

text \<open>Modelled from the spec: the slice an operand contributes to level \<open>l\<close> of
  a loop over \<open>nL\<close> levels (section 4.1, aliasing and broadcast rule): its level
  \<open>l\<close> when it has \<open>nL\<close> levels, its current slice otherwise.\<close>

definition level_ptr :: "'a FMField \<Rightarrow> nat \<Rightarrow> nat \<Rightarrow> nat" where
  "level_ptr A nL l = (if nLev A = nL then FMF_PtrLevel A l else FMF_PtrCurrent A)"

text \<open>Modelled from the spec: the product primitives of fmfield.c are not in
  the sources at hand. Section 4.1, product: for every level of \<open>out\<close>, the
  product of the slice of \<open>A\<close> (optionally transposed) with the slice of \<open>B\<close>
  (optionally transposed) is written to the slice of \<open>out\<close>; incompatible shapes
  are a fault. \<open>product_entry\<close> is the value at offset \<open>k\<close> of the current cell
  of an output of \<open>nL\<close> levels of \<open>nR\<close> by \<open>nC\<close> matrices: entry \<open>(i, j)\<close> of level
  \<open>l\<close>, accumulated from zero in the order of the inner index.\<close>

definition product_entry ::
  "nat \<Rightarrow> nat \<Rightarrow> nat \<Rightarrow> 'a::{zero,plus,times} FMField \<Rightarrow> 'a FMField \<Rightarrow> bool \<Rightarrow> bool \<Rightarrow> nat \<Rightarrow> 'a" where
  "product_entry nL nR nC A B tA tB k =
     (let l = k div (nR * nC); e = k mod (nR * nC); i = e div nC; j = e mod nC;
          cA = (if tA then nRow A else nCol A)
      in fold (\<lambda>kk acc. acc + mat_get A (level_ptr A nL l) tA i kk
                              * mat_get B (level_ptr B nL l) tB kk j)
           [0..<cA] 0)"

definition product ::
  "'a::{zero,plus,times} FMField \<Rightarrow> 'a FMField \<Rightarrow> 'a FMField \<Rightarrow> bool \<Rightarrow> bool
     \<Rightarrow> error + 'a FMField" where
  "product out A B tA tB =
     (let rA = (if tA then nCol A else nRow A); cA = (if tA then nRow A else nCol A);
          rB = (if tB then nCol B else nRow B); cB = (if tB then nRow B else nCol B)
      in if rA \<noteq> nRow out \<or> cB \<noteq> nCol out \<or> cA \<noteq> rB then Inl ShapeFault
         else Inr (out\<lparr>val0 :=
           store_range (val0 out) (val out) (nLev out * (nRow out * nCol out))
             (product_entry (nLev out) (nRow out) (nCol out) A B tA tB)\<rparr>))"

text \<open>Modelled from the spec: the five product primitives the code calls, by
  their transpose flags.\<close>

definition fmf_mulAB_nn ::
  "'a::{zero,plus,times} FMField \<Rightarrow> 'a FMField \<Rightarrow> 'a FMField \<Rightarrow> error + 'a FMField" where
  "fmf_mulAB_nn out A B = product out A B False False"

definition fmf_mulATB_nn ::
  "'a::{zero,plus,times} FMField \<Rightarrow> 'a FMField \<Rightarrow> 'a FMField \<Rightarrow> error + 'a FMField" where
  "fmf_mulATB_nn out A B = product out A B True False"

definition fmf_mulATBT_nn ::
  "'a::{zero,plus,times} FMField \<Rightarrow> 'a FMField \<Rightarrow> 'a FMField \<Rightarrow> error + 'a FMField" where
  "fmf_mulATBT_nn out A B = product out A B True True"

text \<open>Modelled from the spec: the variants whose second (\<open>n1\<close>) or first (\<open>1n\<close>)
  operand is given once; the broadcast rule of \<open>product\<close> picks its current
  slice.\<close>

definition fmf_mulAB_n1 ::
  "'a::{zero,plus,times} FMField \<Rightarrow> 'a FMField \<Rightarrow> 'a FMField \<Rightarrow> error + 'a FMField" where
  "fmf_mulAB_n1 out A B = product out A B False False"

definition fmf_mulATB_1n ::
  "'a::{zero,plus,times} FMField \<Rightarrow> 'a FMField \<Rightarrow> 'a FMField \<Rightarrow> error + 'a FMField" where
  "fmf_mulATB_1n out A B = product out A B True False"

text \<open>Modelled from the spec: \<^verbatim>\<open>ele_extractNodalValuesNBN\<close> is not in the sources
  at hand. Sections 3 (connectivity map) and 9 (gather): local dof \<open>i\<close> of the
  element whose connectivity row starts at \<open>conn\<close> takes the value of the state
  vector at the global index \<open>conn[i]\<close>.\<close>

definition ele_extractNodalValuesNBN ::
  "'a FMField \<Rightarrow> 'a FMField \<Rightarrow> nat list \<times> nat \<Rightarrow> 'a FMField" where
  "ele_extractNodalValuesNBN st state conn =
     st\<lparr>val0 := store_range (val0 st) (val st) (nRow st)
                  (\<lambda>i. val0 state ! (val state + fst conn ! (snd conn + i)))\<rparr>"

subsection \<open>Geometry\<close>

text \<open>Modelled from the spec: the geometry records (section 3) are declared
  outside the sources at hand. The code reads \<^verbatim>\<open>vg->bfGM\<close>, \<^verbatim>\<open>vg->det\<close>,
  \<^verbatim>\<open>sg->normal\<close>, \<^verbatim>\<open>sg->det\<close> and \<^verbatim>\<open>sg->area\<close>.\<close>

record 'a VolumeGeometry =
  vg_bfGM :: "'a FMField"
  vg_det :: "'a FMField"

record 'a SurfaceGeometry =
  sg_normal :: "'a FMField"
  sg_det :: "'a FMField"
  sg_area :: "'a FMField"

subsection \<open>The cell loop\<close>

text \<open>
  Every evaluator runs \<^verbatim>\<open>for (ii = 0; ...) { body; ERR_CheckGo( ret ); }\<close> and
  returns \<open>ret\<close>. Modelled from the spec: the macro \<^verbatim>\<open>ERR_CheckGo\<close> and \<^verbatim>\<open>errput\<close>
  are not in the sources at hand; by section 4.3 the loop propagates the first
  fault and aborts. The code discards the value a kernel builder returns, and
  \<open>ret\<close> is assigned nowhere else, so the macro finds the error that \<^verbatim>\<open>errput\<close>
  recorded: the body hands the loop the status of its builder, which is
  \<open>RET_Fail\<close> exactly when the builder called \<^verbatim>\<open>errput\<close>. The rest of the body
  has run by then. A fault of a product ends the evaluation at once.
\<close>

fun cell_loop ::
  "(nat \<Rightarrow> 's \<Rightarrow> error + ret \<times> 's) \<Rightarrow> nat list \<Rightarrow> 's \<Rightarrow> error + ret \<times> 's" where
  "cell_loop body [] s = Inr (RET_OK, s)"
| "cell_loop body (ii # rest) s =
     (case body ii s of
        Inl e \<Rightarrow> Inl e
      | Inr (r, s') \<Rightarrow> if r = RET_Fail then Inr (RET_Fail, s') else cell_loop body rest s')"

text \<open>What the caller sees: the status and the output buffer.\<close>

definition finish :: "error + ret \<times> ('a FMField \<times> 's) \<Rightarrow> error + ret \<times> 'a FMField" where
  "finish res = (case res of Inl e \<Rightarrow> Inl e | Inr (r, (out, scr)) \<Rightarrow> Inr (r, out))"

text \<open>The coefficient is positioned only when it has more than one cell.\<close>

definition set_cell_coef :: "'a FMField \<Rightarrow> nat \<Rightarrow> 'a FMField" where
  "set_cell_coef coef ii = (if nCell coef > 1 then FMF_SetCell coef ii else coef)"

subsection \<open>Term evaluators\<close>

text \<open>\<^verbatim>\<open>dw_laplace\<close>, lines 210 to 256. The state of the loop is the output and
  the scratch buffer (\<open>gtg\<close> in matrix mode, \<open>gtgu\<close> otherwise).\<close>

definition dw_laplace_cell ::
  "'a::{zero,plus,times} FMField \<Rightarrow> 'a FMField \<Rightarrow> 'a VolumeGeometry \<Rightarrow> int \<Rightarrow> nat
     \<Rightarrow> 'a FMField \<times> 'a FMField \<Rightarrow> error + ret \<times> ('a FMField \<times> 'a FMField)" where
  "dw_laplace_cell grad coef vg isDiff ii s =
     (let (out, scr) = s;
          out1 = FMF_SetCell out ii;
          bfGM1 = FMF_SetCell (vg_bfGM vg) ii;
          det1 = FMF_SetCell (vg_det vg) ii;
          coef1 = set_cell_coef coef ii
      in if isDiff \<noteq> 0 then
           (let (r, gtg1) = laplace_build_gtg scr bfGM1;
                gtg2 = fmf_mulAF gtg1 gtg1 (ptr_val coef1);
                out2 = fmf_sumLevelsMulF out1 gtg2 (ptr_val det1)
            in Inr (r, (out2, gtg2)))
         else
           (let grad1 = FMF_SetCell grad ii;
                (r, gtgu1) = laplace_act_gt_m scr bfGM1 grad1;
                gtgu2 = fmf_mulAF gtgu1 gtgu1 (ptr_val coef1);
                out2 = fmf_sumLevelsMulF out1 gtgu2 (ptr_val det1)
            in Inr (r, (out2, gtgu2))))"

definition dw_laplace ::
  "'a::{zero,plus,times} FMField \<Rightarrow> 'a FMField \<Rightarrow> 'a FMField \<Rightarrow> 'a VolumeGeometry \<Rightarrow> int
     \<Rightarrow> error + ret \<times> 'a FMField" where
  "dw_laplace out grad coef vg isDiff =
     (let nQP = nLev (vg_bfGM vg); nEP = nCol (vg_bfGM vg);
          scr = (if isDiff \<noteq> 0 then fmf_createAlloc 1 nQP nEP nEP
                 else fmf_createAlloc 1 nQP nEP 1)
      in finish (cell_loop (dw_laplace_cell grad coef vg isDiff) [0..<nCell out] (out, scr)))"









text \<open>
  \<^verbatim>\<open>dw_diffusion_coupling\<close>, lines 431 to 509. The loop runs over the element
  list: the output is positioned on \<open>ii\<close>, the geometry on \<open>iel = elList[ii]\<close>,
  the coefficient on \<open>ii\<close>; \<open>bf\<close> is never positioned. The state vector is read
  from \<open>offset\<close> on. In matrix mode the scratch is \<open>gtd\<close>, \<open>gtdg\<close>; in vector
  mode it is \<open>st\<close>, \<open>gp\<close>, \<open>dgp\<close>, \<open>gtdgp\<close>.
\<close>

definition dw_diffusion_coupling_matrix_cell ::
  "'a::{zero,plus,times} FMField \<Rightarrow> 'a FMField \<Rightarrow> 'a VolumeGeometry \<Rightarrow> nat list \<Rightarrow> int \<Rightarrow> nat
     \<Rightarrow> 'a FMField \<times> 'a FMField \<times> 'a FMField
     \<Rightarrow> error + ret \<times> ('a FMField \<times> 'a FMField \<times> 'a FMField)" where
  "dw_diffusion_coupling_matrix_cell mtxD bf vg elList mode ii s =
     (let (out, gtd, gtdg) = s;
          iel = elList ! ii;
          out1 = FMF_SetCell out ii;
          bfGM1 = FMF_SetCell (vg_bfGM vg) iel;
          det1 = FMF_SetCell (vg_det vg) iel;
          mtxD1 = set_cell_coef mtxD ii
      in bind_fault (fmf_mulATB_nn gtd bfGM1 mtxD1) (\<lambda>gtd'.
         bind_fault (if mode > 0 then fmf_mulATBT_nn gtdg bf gtd'
                     else fmf_mulAB_nn gtdg gtd' bf) (\<lambda>gtdg'.
           Inr (RET_OK, (fmf_sumLevelsMulF out1 gtdg' (ptr_val det1), gtd', gtdg')))))"

definition dw_diffusion_coupling_vector_cell ::
  "'a::{zero,plus,times} FMField \<Rightarrow> 'a FMField \<Rightarrow> 'a FMField \<Rightarrow> 'a VolumeGeometry
     \<Rightarrow> nat list \<Rightarrow> nat \<Rightarrow> nat list \<Rightarrow> int \<Rightarrow> nat
     \<Rightarrow> 'a FMField \<times> 'a FMField \<times> 'a FMField \<times> 'a FMField \<times> 'a FMField
     \<Rightarrow> error + ret \<times> ('a FMField \<times> 'a FMField \<times> 'a FMField \<times> 'a FMField \<times> 'a FMField)" where
  "dw_diffusion_coupling_vector_cell state mtxD bf vg conn nEP elList mode ii s =
     (let (out, st, gp, dgp, gtdgp) = s;
          iel = elList ! ii;
          out1 = FMF_SetCell out ii;
          bfGM1 = FMF_SetCell (vg_bfGM vg) iel;
          det1 = FMF_SetCell (vg_det vg) iel;
          mtxD1 = set_cell_coef mtxD ii;
          st' = ele_extractNodalValuesNBN st state (conn, nEP * iel)
      in if mode > 0 then
           bind_fault (fmf_mulAB_n1 gp bfGM1 st') (\<lambda>gp'.
           bind_fault (fmf_mulATB_nn dgp mtxD1 gp') (\<lambda>dgp'.
           bind_fault (fmf_mulATB_nn gtdgp bf dgp') (\<lambda>gtdgp'.
             Inr (RET_OK, (fmf_sumLevelsMulF out1 gtdgp' (ptr_val det1),
                           st', gp', dgp', gtdgp')))))
         else
           bind_fault (fmf_mulAB_n1 gp bf st') (\<lambda>gp'.
           bind_fault (fmf_mulAB_nn dgp mtxD1 gp') (\<lambda>dgp'.
           bind_fault (fmf_mulATB_nn gtdgp bfGM1 dgp') (\<lambda>gtdgp'.
             Inr (RET_OK, (fmf_sumLevelsMulF out1 gtdgp' (ptr_val det1),
                           st', gp', dgp', gtdgp'))))))"

definition dw_diffusion_coupling ::
  "'a::{zero,plus,times} FMField \<Rightarrow> 'a FMField \<Rightarrow> nat \<Rightarrow> 'a FMField \<Rightarrow> 'a FMField
     \<Rightarrow> 'a VolumeGeometry \<Rightarrow> nat list \<Rightarrow> nat \<Rightarrow> nat \<Rightarrow> nat list \<Rightarrow> nat \<Rightarrow> int \<Rightarrow> int
     \<Rightarrow> error + ret \<times> 'a FMField" where
  "dw_diffusion_coupling out state offset mtxD bf vg conn nEl nEP elList elList_nRow isDiff mode =
     (let nQP = nLev (vg_bfGM vg); dim = nRow (vg_bfGM vg);
          state1 = state\<lparr>val := FMF_PtrFirst state + offset\<rparr>
      in if isDiff \<noteq> 0 then
           (let gtd = fmf_createAlloc 1 nQP nEP 1;
                gtdg = fmf_createAlloc 1 nQP nEP nEP
            in finish (cell_loop (dw_diffusion_coupling_matrix_cell mtxD bf vg elList mode)
                         [0..<elList_nRow] (out, gtd, gtdg)))
         else
           (let gp = (if mode > 0 then fmf_createAlloc 1 nQP dim 1
                      else fmf_createAlloc 1 nQP 1 1);
                dgp = (if mode > 0 then fmf_createAlloc 1 nQP 1 1
                       else fmf_createAlloc 1 nQP dim 1);
                st = fmf_createAlloc 1 1 nEP 1;
                gtdgp = fmf_createAlloc 1 nQP nEP 1
            in finish (cell_loop
                         (dw_diffusion_coupling_vector_cell state1 mtxD bf vg conn nEP elList mode)
                         [0..<elList_nRow] (out, st, gp, dgp, gtdgp))))"

text \<open>\<^verbatim>\<open>d_diffusion_coupling\<close>, lines 513 to 569; scratch \<open>st\<close>, \<open>aux1\<close> to
  \<open>aux4\<close>. The nodal values of \<open>stateP\<close> are extracted first and those of
  \<open>stateQ\<close> into the same buffer after the products.\<close>

definition d_diffusion_coupling_cell ::
  "'a::{zero,plus,times} FMField \<Rightarrow> 'a FMField \<Rightarrow> 'a FMField \<Rightarrow> 'a FMField
     \<Rightarrow> 'a VolumeGeometry \<Rightarrow> nat list \<Rightarrow> nat \<Rightarrow> nat list \<Rightarrow> int \<Rightarrow> nat
     \<Rightarrow> 'a FMField \<times> 'a FMField \<times> 'a FMField \<times> 'a FMField \<times> 'a FMField \<times> 'a FMField
     \<Rightarrow> error + ret \<times>
        ('a FMField \<times> 'a FMField \<times> 'a FMField \<times> 'a FMField \<times> 'a FMField \<times> 'a FMField)" where
  "d_diffusion_coupling_cell stateP stateQ mtxD bf vg conn nEP elList mode ii s =
     (let (out, st, aux1, aux2, aux3, aux4) = s;
          iel = elList ! ii;
          out1 = FMF_SetCell out ii;
          bfGM1 = FMF_SetCell (vg_bfGM vg) iel;
          det1 = FMF_SetCell (vg_det vg) iel;
          mtxD1 = set_cell_coef mtxD ii;
          stP = ele_extractNodalValuesNBN st stateP (conn, nEP * iel)
      in bind_fault
           (if mode > 0 then
              bind_fault (fmf_mulAB_n1 aux2 bfGM1 stP) (\<lambda>aux2'.
              bind_fault (fmf_mulATB_nn aux1 mtxD1 aux2') (\<lambda>aux1'.
              bind_fault (fmf_mulATB_nn aux3 bf aux1') (\<lambda>aux3'.
                Inr (aux1', aux2', aux3'))))
            else
              bind_fault (fmf_mulAB_n1 aux1 bf stP) (\<lambda>aux1'.
              bind_fault (fmf_mulAB_nn aux2 mtxD1 aux1') (\<lambda>aux2'.
              bind_fault (fmf_mulATB_nn aux3 bfGM1 aux2') (\<lambda>aux3'.
                Inr (aux1', aux2', aux3')))))
           (\<lambda>(aux1', aux2', aux3').
              let stQ = ele_extractNodalValuesNBN stP stateQ (conn, nEP * iel)
              in bind_fault (fmf_mulATB_1n aux4 stQ aux3') (\<lambda>aux4'.
                   Inr (RET_OK, (fmf_sumLevelsMulF out1 aux4' (ptr_val det1),
                                 stQ, aux1', aux2', aux3', aux4')))))"

definition d_diffusion_coupling ::
  "'a::{zero,plus,times} FMField \<Rightarrow> 'a FMField \<Rightarrow> 'a FMField \<Rightarrow> 'a FMField \<Rightarrow> 'a FMField
     \<Rightarrow> 'a VolumeGeometry \<Rightarrow> nat list \<Rightarrow> nat \<Rightarrow> nat \<Rightarrow> nat list \<Rightarrow> nat \<Rightarrow> int \<Rightarrow> int
     \<Rightarrow> error + ret \<times> 'a FMField" where
  "d_diffusion_coupling out stateP stateQ mtxD bf vg conn nEl nEP elList elList_nRow isDiff mode =
     (let nQP = nLev (vg_bfGM vg); dim = nRow (vg_bfGM vg);
          aux1 = fmf_createAlloc 1 nQP dim 1;
          aux2 = fmf_createAlloc 1 nQP 1 1;
          aux3 = fmf_createAlloc 1 nQP nEP 1;
          aux4 = fmf_createAlloc 1 nQP 1 1;
          st = fmf_createAlloc 1 1 nEP 1
      in finish (cell_loop (d_diffusion_coupling_cell stateP stateQ mtxD bf vg conn nEP elList mode)
                   [0..<elList_nRow] (out, st, aux1, aux2, aux3, aux4)))"

text \<open>
  \<^verbatim>\<open>d_surface_flux\<close>, lines 574 to 609. Every buffer, the coefficient \<open>mtxD\<close>
  included, is positioned on cell \<open>ii\<close> (lines 587 to 591). With \<open>mode = 1\<close> the
  cell's value is multiplied by \<^verbatim>\<open>1.0 / sg->area->val[0]\<close>; the code does not
  test the divisor, and the embedding marks a zero divisor as \<open>ZeroDivide\<close>.
\<close>

definition d_surface_flux_cell ::
  "'a::{zero,one,plus,times,inverse} FMField \<Rightarrow> 'a FMField \<Rightarrow> 'a SurfaceGeometry \<Rightarrow> int \<Rightarrow> nat
     \<Rightarrow> 'a FMField \<times> 'a FMField \<times> 'a FMField
     \<Rightarrow> error + ret \<times> ('a FMField \<times> 'a FMField \<times> 'a FMField)" where
  "d_surface_flux_cell grad mtxD sg mode ii s =
     (let (out, dgp, ntdgp) = s;
          out1 = FMF_SetCell out ii;
          grad1 = FMF_SetCell grad ii;
          mtxD1 = FMF_SetCell mtxD ii;
          normal1 = FMF_SetCell (sg_normal sg) ii;
          det1 = FMF_SetCell (sg_det sg) ii
      in bind_fault (fmf_mulAB_nn dgp mtxD1 grad1) (\<lambda>dgp'.
         bind_fault (fmf_mulATB_nn ntdgp normal1 dgp') (\<lambda>ntdgp'.
           let out2 = fmf_sumLevelsMulF out1 ntdgp' (ptr_val det1)
           in if mode = 1 then
                (let area1 = FMF_SetCell (sg_area sg) ii
                 in if deref (ptr_val area1) 0 = 0 then Inl ZeroDivide
                    else Inr (RET_OK, (fmf_mulC out2 (1 / deref (ptr_val area1) 0), dgp', ntdgp')))
              else Inr (RET_OK, (out2, dgp', ntdgp')))))"

definition d_surface_flux ::
  "'a::{zero,one,plus,times,inverse} FMField \<Rightarrow> 'a FMField \<Rightarrow> 'a FMField
     \<Rightarrow> 'a SurfaceGeometry \<Rightarrow> int \<Rightarrow> error + ret \<times> 'a FMField" where
  "d_surface_flux out grad mtxD sg mode =
     (let nQP = nLev (sg_normal sg); dim = nRow (sg_normal sg);
          dgp = fmf_createAlloc 1 nQP dim 1;
          ntdgp = fmf_createAlloc 1 nQP 1 1
      in finish (cell_loop (d_surface_flux_cell grad mtxD sg mode) [0..<nCell out]
                   (out, dgp, ntdgp)))"
subsection \<open>The arithmetic of \<^verbatim>\<open>float64\<close>\<close>

text \<open>
  The numbers of the code are C doubles (\<^verbatim>\<open>float64\<close>): IEEE 754 binary64, with
  53 significant bits, exponents from \<open>-1022\<close> to \<open>1023\<close> and gradual underflow.
  A finite double is given here by its value, a rational number, and an
  operation returns the exact result rounded to the nearest double, ties to
  the even significand (the default rounding of C). Infinities, NaN and the
  sign of zero are not represented: the type is for results below \<open>2^1024\<close> in
  magnitude and for divisions by a nonzero divisor, which is all that the
  theorems ask of it.
\<close>

text \<open>The nearest integer, ties to the even one.\<close>

definition round_to_even :: "rat \<Rightarrow> int" where
  "round_to_even x =
     (let n = \<lfloor>x\<rfloor>; r = x - of_int n
      in if r < 1 / 2 then n else if 1 / 2 < r then n + 1 else if even n then n else n + 1)"

text \<open>The number of binary digits of \<open>n\<close>.\<close>

fun bit_length :: "nat \<Rightarrow> nat" where
  "bit_length n = (if n = 0 then 0 else Suc (bit_length (n div 2)))"

declare bit_length.simps [simp del]

text \<open>The exponent of a positive value \<open>x\<close>: the \<open>e\<close> with \<open>2^e \<le> x < 2^(e + 1)\<close>,
  and \<open>-1022\<close> for the subnormal values below \<open>2^(-1022)\<close>. For \<open>x < 1\<close> it is
  minus the least \<open>k\<close> with \<open>1 / x \<le> 2^k\<close>.\<close>

definition float64_exponent :: "rat \<Rightarrow> int" where
  "float64_exponent x =
     max (- 1022) (if 1 \<le> x then int (bit_length (nat \<lfloor>x\<rfloor>)) - 1
                   else - int (bit_length (nat (\<lceil>1 / x\<rceil> - 1))))"

text \<open>The unit in the last place of the doubles of exponent \<open>e\<close>: \<open>2^(e - 52)\<close>.\<close>

definition float64_ulp :: "int \<Rightarrow> rat" where
  "float64_ulp e = (if 52 \<le> e then 2 ^ nat (e - 52) else 1 / 2 ^ nat (52 - e))"

text \<open>The double nearest to \<open>x\<close>.\<close>

definition round_float64 :: "rat \<Rightarrow> rat" where
  "round_float64 x =
     (if x = 0 then 0
      else let u = float64_ulp (float64_exponent \<bar>x\<bar>)
           in sgn x * of_int (round_to_even (\<bar>x\<bar> / u)) * u)"

datatype float64 = Float64 rat

instantiation float64 :: "{zero,one,plus,times,inverse}"
begin

definition zero_float64 :: float64 where "zero_float64 = Float64 0"

definition one_float64 :: float64 where "one_float64 = Float64 1"

fun plus_float64 :: "float64 \<Rightarrow> float64 \<Rightarrow> float64" where
  "plus_float64 (Float64 a) (Float64 b) = Float64 (round_float64 (a + b))"

fun times_float64 :: "float64 \<Rightarrow> float64 \<Rightarrow> float64" where
  "times_float64 (Float64 a) (Float64 b) = Float64 (round_float64 (a * b))"

fun divide_float64 :: "float64 \<Rightarrow> float64 \<Rightarrow> float64" where
  "divide_float64 (Float64 a) (Float64 b) = Float64 (round_float64 (a / b))"

fun inverse_float64 :: "float64 \<Rightarrow> float64" where
  "inverse_float64 (Float64 a) = Float64 (round_float64 (1 / a))"

instance ..

end

subsection \<open>Reading results\<close>

text \<open>A buffer of the given shape and values, with its cursor on the first
  cell.\<close>

definition mk_field :: "nat \<Rightarrow> nat \<Rightarrow> nat \<Rightarrow> nat \<Rightarrow> 'a list \<Rightarrow> 'a FMField" where
  "mk_field nc nl nr ncol vs =
     \<lparr>nCell = nc, nLev = nl, nRow = nr, nCol = ncol, val0 = vs, val = 0\<rparr>"

text \<open>What \<open>laplace_build_gtg\<close> stores at entry \<open>(i, j)\<close> of level \<open>q\<close>: the sum
  over the two or three rows of the gradient slice, in the order of the code.\<close>

definition gtg_entry :: "'a::{zero,plus,times} FMField \<Rightarrow> nat \<Rightarrow> nat \<Rightarrow> nat \<Rightarrow> 'a" where
  "gtg_entry gc q i j =
     (let p = FMF_PtrLevel gc q; m = nCol gc; g = val0 gc
      in if nRow gc = 3 then
           g ! (p + i) * g ! (p + j) + g ! (p + m + i) * g ! (p + m + j)
           + g ! (p + m + m + i) * g ! (p + m + m + j)
         else g ! (p + i) * g ! (p + j) + g ! (p + m + i) * g ! (p + m + j))"

text \<open>What \<open>dw_laplace\<close> accumulates in matrix mode for entry \<open>(i, j)\<close> of cell
  \<open>ii\<close>, in the order of the operations of the code: from zero, for each
  quadrature point \<open>q\<close>, the builder's entry times the coefficient of \<open>q\<close>
  (\<open>fmf_mulAF\<close>) times the determinant weight of \<open>q\<close> (\<open>fmf_sumLevelsMulF\<close>).\<close>

definition laplace_sum ::
  "'a::{zero,plus,times} FMField \<Rightarrow> 'a VolumeGeometry \<Rightarrow> nat \<Rightarrow> nat \<Rightarrow> nat \<Rightarrow> 'a" where
  "laplace_sum coef vg ii i j =
     fold (\<lambda>q acc. acc + gtg_entry (FMF_SetCell (vg_bfGM vg) ii) q i j
                          * deref (ptr_val (set_cell_coef coef ii)) q
                          * deref (ptr_val (FMF_SetCell (vg_det vg) ii)) q)
       [0..<nLev (vg_bfGM vg)] 0"

text \<open>Valid inputs of \<open>dw_laplace\<close> in matrix mode (sections 3 and 6): a 2-D or
  3-D gradient buffer of \<open>nEP\<close> local dofs and \<open>nQP\<close> quadrature points for the
  cells of the batch, an output of one \<open>nEP\<close> by \<open>nEP\<close> matrix per cell, one
  determinant weight and one coefficient per quadrature point, the coefficient
  given for one cell or for every cell of the batch, and every buffer of the
  size of its shape.\<close>

definition valid_laplace :: "'a FMField \<Rightarrow> 'a FMField \<Rightarrow> 'a VolumeGeometry \<Rightarrow> bool" where
  "valid_laplace out coef vg =
     ((nRow (vg_bfGM vg) = 2 \<or> nRow (vg_bfGM vg) = 3)
      \<and> nLev out = 1 \<and> nRow out = nCol (vg_bfGM vg) \<and> nCol out = nCol (vg_bfGM vg) \<and> sized out
      \<and> nCell (vg_bfGM vg) = nCell out \<and> sized (vg_bfGM vg)
      \<and> nCell (vg_det vg) = nCell out \<and> nLev (vg_det vg) = nLev (vg_bfGM vg)
      \<and> nRow (vg_det vg) = 1 \<and> nCol (vg_det vg) = 1 \<and> sized (vg_det vg)
      \<and> nLev coef = nLev (vg_bfGM vg) \<and> nRow coef = 1 \<and> nCol coef = 1 \<and> sized coef
      \<and> (nCell coef = 1 \<and> val coef = 0 \<or> 1 < nCell coef \<and> nCell coef = nCell out))"


text \<open>Valid inputs of \<open>dw_diffusion_coupling\<close> in matrix mode: a gradient buffer
  of \<open>nEP\<close> local dofs, a secondary shape-function buffer \<open>bf\<close> of one row of
  \<open>nEP\<close> values (given once, per quadrature point or for all of them), a
  coefficient of one column with the rows of the gradient (given for one cell
  or for every listed element), an output of one \<open>nEP\<close> by \<open>nEP\<close> matrix per
  listed element, and a list of \<open>elList_nRow\<close> elements of the geometry.\<close>

definition valid_coupling ::
  "'a FMField \<Rightarrow> 'a FMField \<Rightarrow> 'a FMField \<Rightarrow> 'a VolumeGeometry \<Rightarrow> nat \<Rightarrow> nat list \<Rightarrow> nat
     \<Rightarrow> bool" where
  "valid_coupling out mtxD bf vg nEP elList elList_nRow =
     (nCol (vg_bfGM vg) = nEP \<and> sized (vg_bfGM vg)
      \<and> nCell (vg_det vg) = nCell (vg_bfGM vg) \<and> nLev (vg_det vg) = nLev (vg_bfGM vg)
      \<and> nRow (vg_det vg) = 1 \<and> nCol (vg_det vg) = 1 \<and> sized (vg_det vg)
      \<and> nCell bf = 1 \<and> val bf = 0 \<and> (nLev bf = nLev (vg_bfGM vg) \<or> nLev bf = 1)
      \<and> nRow bf = 1 \<and> nCol bf = nEP \<and> sized bf
      \<and> (nLev mtxD = nLev (vg_bfGM vg) \<or> nLev mtxD = 1)
      \<and> nRow mtxD = nRow (vg_bfGM vg) \<and> nCol mtxD = 1 \<and> sized mtxD
      \<and> (nCell mtxD = 1 \<and> val mtxD = 0 \<or> 1 < nCell mtxD \<and> nCell mtxD = elList_nRow)
      \<and> nCell out = elList_nRow \<and> nLev out = 1 \<and> nRow out = nEP \<and> nCol out = nEP \<and> sized out
      \<and> length elList = elList_nRow \<and> list_all (\<lambda>iel. iel < nCell (vg_bfGM vg)) elList)"

text \<open>What \<open>dw_diffusion_coupling\<close> computes in matrix mode for the element at place
  \<open>ii\<close> of the list: the scratch buffer \<open>gtd\<close> after \<open>fmf_mulATB_nn(gtd, bfGM,
  mtxD)\<close>, and the value accumulated for entry \<open>(i, j)\<close>: from zero, for each
  quadrature point, the entry of the second product (by \<open>mode\<close>) times the
  determinant weight.\<close>

definition coupling_gtd ::
  "'a::{zero,plus,times} FMField \<Rightarrow> 'a VolumeGeometry \<Rightarrow> nat list \<Rightarrow> nat \<Rightarrow> 'a FMField" where
  "coupling_gtd mtxD vg elList ii =
     (fmf_createAlloc 1 (nLev (vg_bfGM vg)) (nCol (vg_bfGM vg)) 1)
       \<lparr>val0 := map (product_entry (nLev (vg_bfGM vg)) (nCol (vg_bfGM vg)) 1
                       (FMF_SetCell (vg_bfGM vg) (elList ! ii)) (set_cell_coef mtxD ii) True False)
                  [0..<nLev (vg_bfGM vg) * (nCol (vg_bfGM vg) * 1)]\<rparr>"

definition coupling_sum ::
  "int \<Rightarrow> 'a::{zero,plus,times} FMField \<Rightarrow> 'a FMField \<Rightarrow> 'a VolumeGeometry \<Rightarrow> nat list
     \<Rightarrow> nat \<Rightarrow> nat \<Rightarrow> nat \<Rightarrow> 'a" where
  "coupling_sum mode mtxD bf vg elList ii i j =
     (let nq = nLev (vg_bfGM vg); m = nCol (vg_bfGM vg);
          gtd = coupling_gtd mtxD vg elList ii
      in fold (\<lambda>il acc. acc
                + (if mode > 0
                   then product_entry nq m m bf gtd True True (m * m * il + (i * m + j))
                   else product_entry nq m m gtd bf False False (m * m * il + (i * m + j)))
                * deref (ptr_val (FMF_SetCell (vg_det vg) (elList ! ii))) il)
           [0..<nq] 0)"

text \<open>Valid inputs of \<open>d_surface_flux\<close>: for every cell of the batch, a normal of
  \<open>dim\<close> rows per quadrature point, a determinant weight per quadrature point,
  a facet area, a gradient of \<open>dim\<close> rows and a \<open>dim\<close> by \<open>dim\<close> coefficient (each
  per quadrature point or once per cell), and an output of one value per cell.\<close>

definition valid_surface_flux ::
  "'a FMField \<Rightarrow> 'a FMField \<Rightarrow> 'a FMField \<Rightarrow> 'a SurfaceGeometry \<Rightarrow> bool" where
  "valid_surface_flux out grad mtxD sg =
     (nCell (sg_normal sg) = nCell out \<and> nCol (sg_normal sg) = 1 \<and> sized (sg_normal sg)
      \<and> nCell (sg_det sg) = nCell out \<and> nLev (sg_det sg) = nLev (sg_normal sg)
      \<and> nRow (sg_det sg) = 1 \<and> nCol (sg_det sg) = 1 \<and> sized (sg_det sg)
      \<and> nCell (sg_area sg) = nCell out \<and> nLev (sg_area sg) = 1
      \<and> nRow (sg_area sg) = 1 \<and> nCol (sg_area sg) = 1 \<and> sized (sg_area sg)
      \<and> nCell grad = nCell out \<and> (nLev grad = nLev (sg_normal sg) \<or> nLev grad = 1)
      \<and> nRow grad = nRow (sg_normal sg) \<and> nCol grad = 1 \<and> sized grad
      \<and> nCell mtxD = nCell out \<and> (nLev mtxD = nLev (sg_normal sg) \<or> nLev mtxD = 1)
      \<and> nRow mtxD = nRow (sg_normal sg) \<and> nCol mtxD = nRow (sg_normal sg) \<and> sized mtxD
      \<and> nLev out = 1 \<and> nRow out = 1 \<and> nCol out = 1 \<and> sized out)"

text \<open>The part of that validity that constrains shapes only: what the products
  of \<open>d_surface_flux\<close> ask for, and an output and an area of one value per
  cell.\<close>

definition flux_shapes ::
  "'a FMField \<Rightarrow> 'a FMField \<Rightarrow> 'a FMField \<Rightarrow> 'a SurfaceGeometry \<Rightarrow> bool" where
  "flux_shapes out grad mtxD sg =
     (nCol (sg_normal sg) = 1
      \<and> nLev (sg_area sg) = 1 \<and> nRow (sg_area sg) = 1 \<and> nCol (sg_area sg) = 1
      \<and> nRow grad = nRow (sg_normal sg) \<and> nCol grad = 1
      \<and> nRow mtxD = nRow (sg_normal sg) \<and> nCol mtxD = nRow (sg_normal sg)
      \<and> nLev out = 1 \<and> nRow out = 1 \<and> nCol out = 1 \<and> sized out)"

text \<open>What \<open>d_surface_flux\<close> accumulates for cell \<open>ii\<close> before any averaging: the
  scratch buffer \<open>dgp\<close> after \<open>fmf_mulAB_nn(dgp, mtxD, grad)\<close>, and the sum over
  the quadrature points of the entry of \<open>fmf_mulATB_nn(ntdgp, normal, dgp)\<close> times
  the determinant weight.\<close>

definition flux_dgp ::
  "'a::{zero,plus,times} FMField \<Rightarrow> 'a FMField \<Rightarrow> 'a SurfaceGeometry \<Rightarrow> nat \<Rightarrow> 'a FMField" where
  "flux_dgp grad mtxD sg ii =
     (fmf_createAlloc 1 (nLev (sg_normal sg)) (nRow (sg_normal sg)) 1)
       \<lparr>val0 := map (product_entry (nLev (sg_normal sg)) (nRow (sg_normal sg)) 1
                       (FMF_SetCell mtxD ii) (FMF_SetCell grad ii) False False)
                  [0..<nLev (sg_normal sg) * (nRow (sg_normal sg) * 1)]\<rparr>"

definition flux_sum ::
  "'a::{zero,plus,times} FMField \<Rightarrow> 'a FMField \<Rightarrow> 'a SurfaceGeometry \<Rightarrow> nat \<Rightarrow> 'a" where
  "flux_sum grad mtxD sg ii =
     fold (\<lambda>il acc. acc
             + product_entry (nLev (sg_normal sg)) 1 1 (FMF_SetCell (sg_normal sg) ii)
                 (flux_dgp grad mtxD sg ii) True False (1 * 1 * il + 0)
             * deref (ptr_val (FMF_SetCell (sg_det sg) ii)) il)
       [0..<nLev (sg_normal sg)] 0"


text \<open>The shape of a buffer: levels, rows and columns.\<close>

definition shape :: "'a FMField \<Rightarrow> nat \<times> nat \<times> nat" where
  "shape f = (nLev f, nRow f, nCol f)"








section \<open>Writes to a range of a buffer\<close>

lemma length_store_range [simp]: "length (store_range b p n f) = length b"
  by (simp add: store_range_def)

lemma nth_store_range:
  "k < length b \<Longrightarrow>
   store_range b p n f ! k = (if p \<le> k \<and> k < p + n then f (k - p) else b ! k)"
  by (simp add: store_range_def)

lemma store_range_0 [simp]: "store_range b p 0 f = b"
  by (rule nth_equalityI) (auto simp add: nth_store_range)

lemma store_range_twice [simp]: "store_range (store_range b p n f) p n g = store_range b p n g"
  by (rule nth_equalityI) (simp_all add: nth_store_range)

lemma store_range_cong:
  "(\<And>k. k < n \<Longrightarrow> p + k < length b \<Longrightarrow> f k = g k) \<Longrightarrow>
   store_range b p n f = store_range b p n g"
  by (rule nth_equalityI) (auto simp add: nth_store_range)

lemma list_update_store_range:
  "(store_range b p n f)[p + n := v] = store_range b p (Suc n) (\<lambda>k. if k = n then v else f k)"
  by (rule nth_equalityI) (auto simp add: nth_store_range nth_list_update)

text \<open>A loop of single writes to consecutive addresses is a write of the range.\<close>

lemma fold_update_store_range:
  "fold (\<lambda>i b. b[p + i := f i]) [0..<n] b = store_range b p n f"
proof (induction n)
  case 0
  show ?case by simp
next
  case (Suc n)
  have "fold (\<lambda>i b. b[p + i := f i]) [0..<Suc n] b = (store_range b p n f)[p + n := f n]"
    by (simp add: Suc)
  also have "\<dots> = store_range b p (Suc n) f"
    unfolding list_update_store_range by (rule store_range_cong) simp
  finally show ?case .
qed

lemma store_range_block:
  assumes s0: "0 < s"
  shows "store_range (store_range b p (n * s) (\<lambda>k. F (k div s) (k mod s))) (p + n * s) s (F n)
         = store_range b p (Suc n * s) (\<lambda>k. F (k div s) (k mod s))"
proof (rule nth_equalityI)
  show "length (store_range (store_range b p (n * s) (\<lambda>k. F (k div s) (k mod s))) (p + n * s) s (F n))
      = length (store_range b p (Suc n * s) (\<lambda>k. F (k div s) (k mod s)))" by simp
next
  fix k
  assume "k < length (store_range (store_range b p (n * s) (\<lambda>k. F (k div s) (k mod s))) (p + n * s) s (F n))"
  then have k: "k < length b" by simp
  have *: "(k - p) div s = n \<and> (k - p) mod s = k - (p + n * s)"
    if "p + n * s \<le> k" "k < p + n * s + s"
  proof -
    define r where "r = k - (p + n * s)"
    have r: "k - p = r + n * s" "r < s"
      using that by (simp_all add: r_def)
    show ?thesis unfolding r using r(2) by (simp add: r_def)
  qed
  show "store_range (store_range b p (n * s) (\<lambda>k. F (k div s) (k mod s))) (p + n * s) s (F n) ! k
      = store_range b p (Suc n * s) (\<lambda>k. F (k div s) (k mod s)) ! k"
  proof (cases "p + n * s \<le> k \<and> k < p + n * s + s")
    case True
    then show ?thesis using k * by (simp add: nth_store_range)
  next
    case False
    then show ?thesis using k by (auto simp add: nth_store_range)
  qed
qed

text \<open>A loop that writes block \<open>q\<close> of size \<open>s\<close> at \<open>p + q * s\<close> writes the
  range of all blocks.\<close>

lemma fold_store_range_blocks:
  "fold (\<lambda>q b. store_range b (p + q * s) s (F q)) [0..<n] b
   = store_range b p (n * s) (\<lambda>k. F (k div s) (k mod s))"
proof (cases "s = 0")
  case True
  then show ?thesis by (induction n) simp_all
next
  case False
  then have s: "0 < s" by simp
  show ?thesis
  proof (induction n)
    case 0
    show ?case by simp
  next
    case (Suc n)
    show ?case using store_range_block [OF s, of b p n F] by (simp add: Suc)
  qed
qed

lemma fold_rows_store_range:
  "fold (\<lambda>ir ob. fold (\<lambda>ic ob. ob[p + ir * m + ic := f ir ic]) [0..<m] ob) [0..<n] b
   = store_range b p (n * m) (\<lambda>k. f (k div m) (k mod m))"
  by (simp only: fold_update_store_range fold_store_range_blocks)

section \<open>The gradient self-product\<close>

text \<open>On a square output with the levels of the gradient buffer (the scratch
  buffer \<open>gtg\<close> of \<open>dw_laplace\<close>), the builder overwrites the whole cell.\<close>

lemma laplace_build_gtg_scratch:
  assumes dim: "nRow gc = 2 \<or> nRow gc = 3"
    and shape: "nRow out = nCol gc" "nCol out = nCol gc" "nLev out = nLev gc"
  shows "laplace_build_gtg out gc =
     (RET_OK, out\<lparr>val0 := store_range (val0 out) (val out) (nLev gc * (nCol gc * nCol gc))
        (\<lambda>k. gtg_entry gc (k div (nCol gc * nCol gc)) (k mod (nCol gc * nCol gc) div nCol gc)
               (k mod nCol gc))\<rparr>)"
proof -
  have mm: "k mod (nCol gc * nCol gc) mod nCol gc = k mod nCol gc" for k
    by (simp add: mod_mod_cancel)
  show ?thesis
    using dim shape
    by (auto simp add: laplace_build_gtg_def Let_def fmf_fillC_def FMF_PtrLevel_def cellSize_def
        fold_rows_store_range fold_store_range_blocks gtg_entry_def mm mult.assoc)
qed

section \<open>The cell loop\<close>

lemma cell_loop_append:
  "cell_loop body (xs @ ys) s =
     (case cell_loop body xs s of
        Inl e \<Rightarrow> Inl e
      | Inr (r, s') \<Rightarrow> if r = RET_Fail then Inr (RET_Fail, s') else cell_loop body ys s')"
  by (induction xs arbitrary: s) (auto split: sum.splits)

text \<open>The loop of an evaluator whose body, on cell \<open>ii\<close>, either stops with the
  fault \<open>e\<close> (when \<open>Z ii\<close>) or writes the values \<open>V ii\<close> to the first \<open>m\<close> places
  of cell \<open>ii\<close> of the output, where a cell has \<open>c\<close> places. \<open>I\<close> is an invariant
  of the scratch buffers.\<close>

lemma cell_loop_cells:
  fixes body :: "nat \<Rightarrow> 'a FMField \<times> 's \<Rightarrow> error + ret \<times> ('a FMField \<times> 's)"
  assumes fault: "\<And>ii b v s. ii < n \<Longrightarrow> I s \<Longrightarrow> Z ii \<Longrightarrow>
            body ii (out\<lparr>val0 := b, val := v\<rparr>, s) = Inl e"
    and step: "\<And>ii b v s. ii < n \<Longrightarrow> I s \<Longrightarrow> \<not> Z ii \<Longrightarrow> length b = length (val0 out) \<Longrightarrow>
            \<exists>s'. body ii (out\<lparr>val0 := b, val := v\<rparr>, s)
                   = Inr (RET_OK, (out\<lparr>val0 := store_range b (ii * c) m (V ii), val := ii * c\<rparr>, s'))
                \<and> I s'"
    and init: "I s" and mc: "m \<le> c"
  shows "if \<exists>ii<n. Z ii
         then cell_loop body [0..<n] (out, s) = Inl e
         else \<exists>b v s'. cell_loop body [0..<n] (out, s) = Inr (RET_OK, (out\<lparr>val0 := b, val := v\<rparr>, s'))
                \<and> I s' \<and> length b = length (val0 out)
                \<and> (\<forall>ii<n. \<forall>k<m. ii * c + k < length (val0 out) \<longrightarrow> b ! (ii * c + k) = V ii k)
                \<and> (\<forall>k<length (val0 out). n * c \<le> k \<longrightarrow> b ! k = val0 out ! k)"
  using fault step
proof (induction n)
  case 0
  have "out = out\<lparr>val0 := val0 out, val := val out\<rparr>" by simp
  then show ?case using init by (auto intro!: exI [of _ "val0 out"] exI [of _ "val out"] exI [of _ s])
next
  case (Suc n)
  have IH: "if \<exists>ii<n. Z ii
         then cell_loop body [0..<n] (out, s) = Inl e
         else \<exists>b v s'. cell_loop body [0..<n] (out, s) = Inr (RET_OK, (out\<lparr>val0 := b, val := v\<rparr>, s'))
                \<and> I s' \<and> length b = length (val0 out)
                \<and> (\<forall>ii<n. \<forall>k<m. ii * c + k < length (val0 out) \<longrightarrow> b ! (ii * c + k) = V ii k)
                \<and> (\<forall>k<length (val0 out). n * c \<le> k \<longrightarrow> b ! k = val0 out ! k)"
    by (rule Suc.IH) (use Suc.prems in \<open>auto simp add: less_Suc_eq\<close>)
  show ?case
  proof (cases "\<exists>ii<n. Z ii")
    case True
    then have "\<exists>ii<Suc n. Z ii" by (auto simp add: less_Suc_eq)
    moreover have "cell_loop body [0..<Suc n] (out, s) = Inl e"
      using IH True by (simp add: cell_loop_append)
    ultimately show ?thesis by simp
  next
    case False
    then obtain b v s' where run: "cell_loop body [0..<n] (out, s) = Inr (RET_OK, (out\<lparr>val0 := b, val := v\<rparr>, s'))"
      and inv: "I s'" and len: "length b = length (val0 out)"
      and cells: "\<forall>ii<n. \<forall>k<m. ii * c + k < length (val0 out) \<longrightarrow> b ! (ii * c + k) = V ii k"
      and rest: "\<forall>k<length (val0 out). n * c \<le> k \<longrightarrow> b ! k = val0 out ! k"
      using IH unfolding if_not_P [OF False] by blast
    have loop: "cell_loop body [0..<Suc n] (out, s) =
        (case body n (out\<lparr>val0 := b, val := v\<rparr>, s') of Inl e \<Rightarrow> Inl e
         | Inr (r, s'') \<Rightarrow> if r = RET_Fail then Inr (RET_Fail, s'') else Inr (RET_OK, s''))"
      by (simp add: cell_loop_append run split: sum.splits)
    show ?thesis
    proof (cases "Z n")
      case True
      have "body n (out\<lparr>val0 := b, val := v\<rparr>, s') = Inl e"
        by (rule Suc.prems(1)) (use inv True in simp_all)
      then show ?thesis using True loop by auto
    next
      case nZ: False
      then obtain s'' where b: "body n (out\<lparr>val0 := b, val := v\<rparr>, s')
            = Inr (RET_OK, (out\<lparr>val0 := store_range b (n * c) m (V n), val := n * c\<rparr>, s''))"
        and inv': "I s''"
        using Suc.prems(2) inv len by (metis lessI)
      have noZ: "\<not> (\<exists>ii<Suc n. Z ii)" using False nZ by (auto simp add: less_Suc_eq)
      have 1: "\<forall>ii<Suc n. \<forall>k<m. ii * c + k < length (val0 out) \<longrightarrow>
                 store_range b (n * c) m (V n) ! (ii * c + k) = V ii k"
      proof (intro allI impI)
        fix ii k
        assume ii: "ii < Suc n" and k: "k < m" and r: "ii * c + k < length (val0 out)"
        show "store_range b (n * c) m (V n) ! (ii * c + k) = V ii k"
        proof (cases "ii = n")
          case True
          then show ?thesis using k r len by (simp add: nth_store_range)
        next
          case False
          then have lt: "ii < n" using ii by simp
          then have "Suc ii * c \<le> n * c" by (simp add: Suc_leI mult_le_mono1 del: mult_Suc)
          then have "ii * c + k < n * c" using k mc by simp
          then show ?thesis using r cells lt k len by (simp add: nth_store_range)
        qed
      qed
      have 2: "\<forall>k<length (val0 out). Suc n * c \<le> k \<longrightarrow> store_range b (n * c) m (V n) ! k = val0 out ! k"
        using rest mc len by (auto simp add: nth_store_range)
      show ?thesis
        using noZ loop b inv' len 1 2
        by (auto intro!: exI [of _ "store_range b (n * c) m (V n)"] exI [of _ "n * c"] exI [of _ s''])
    qed
  qed
qed

lemma dw_laplace_cell_grad:
  "isDiff \<noteq> 0 \<Longrightarrow> dw_laplace_cell grad1 coef vg isDiff = dw_laplace_cell grad2 coef vg isDiff"
  by (intro ext) (simp add: dw_laplace_cell_def)

section \<open>The Laplace matrix, cell by cell\<close>

lemma index_in_square: "i < m \<Longrightarrow> j < m \<Longrightarrow> i * m + j < m * (m::nat)"
proof -
  assume i: "i < m" and j: "j < m"
  have "i * m + j < Suc i * m" using j by simp
  also have "\<dots> \<le> m * m" using i by (simp add: Suc_leI mult_le_mono1 del: mult_Suc)
  finally show ?thesis .
qed

lemma index_in_levels: "q < n \<Longrightarrow> k < s \<Longrightarrow> s * q + k < n * (s::nat)"
proof -
  assume q: "q < n" and k: "k < s"
  have "s * q + k < Suc q * s" using k by (simp add: mult.commute)
  also have "\<dots> \<le> n * s" using q by (simp add: Suc_leI mult_le_mono1 del: mult_Suc)
  finally show ?thesis .
qed

lemma level_index_div_mod:
  "k < s \<Longrightarrow> (s * q + k) div s = q \<and> (s * q + k) mod s = (k::nat)"
  by simp

lemma dw_laplace_cell_matrix_step:
  fixes out :: "'a::{zero,plus,times} FMField"
  assumes dim: "nRow (vg_bfGM vg) = 2 \<or> nRow (vg_bfGM vg) = 3"
    and o: "nLev out = 1" "nRow out = nCol (vg_bfGM vg)" "nCol out = nCol (vg_bfGM vg)"
    and scr: "nLev scr = nLev (vg_bfGM vg)" "nRow scr = nCol (vg_bfGM vg)"
      "nCol scr = nCol (vg_bfGM vg)" "val scr = 0"
      "length (val0 scr) = nLev (vg_bfGM vg) * (nCol (vg_bfGM vg) * nCol (vg_bfGM vg))"
    and diff: "isDiff \<noteq> 0"
  shows "\<exists>sb. dw_laplace_cell grad coef vg isDiff ii (out, scr) =
     Inr (RET_OK,
       (out\<lparr>val0 := store_range (val0 out) (ii * (nCol (vg_bfGM vg) * nCol (vg_bfGM vg)))
                    (nCol (vg_bfGM vg) * nCol (vg_bfGM vg))
                    (\<lambda>k. laplace_sum coef vg ii (k div nCol (vg_bfGM vg)) (k mod nCol (vg_bfGM vg))),
          val := ii * (nCol (vg_bfGM vg) * nCol (vg_bfGM vg))\<rparr>,
        scr\<lparr>val0 := sb\<rparr>))
     \<and> length sb = length (val0 scr)"
proof -
  define G where "G = FMF_SetCell (vg_bfGM vg) ii"
  define m where "m = nCol (vg_bfGM vg)"
  define nq where "nq = nLev (vg_bfGM vg)"
  define w where "w = ptr_val (set_cell_coef coef ii)"
  define F where "F = (\<lambda>k. gtg_entry G (k div (m * m)) (k mod (m * m) div m) (k mod m))"
  have Gs: "nRow G = 2 \<or> nRow G = 3" "nCol G = m" "nLev G = nq"
    using dim by (simp_all add: G_def FMF_SetCell_def m_def nq_def)
  have build: "laplace_build_gtg scr G = (RET_OK, scr\<lparr>val0 := store_range (val0 scr) 0 (nq * (m * m)) F\<rparr>)"
    using laplace_build_gtg_scratch [of G scr] Gs scr by (simp add: m_def nq_def F_def)
  define gtg1 where "gtg1 = scr\<lparr>val0 := store_range (val0 scr) 0 (nq * (m * m)) F\<rparr>"
  have mulAF: "fmf_mulAF gtg1 gtg1 w
      = scr\<lparr>val0 := store_range (val0 scr) 0 (nq * (m * m)) (\<lambda>k. F k * deref w (k div (m * m)))\<rparr>"
  proof -
    have "store_range (val0 scr) 0 (nq * (m * m))
            (\<lambda>k. store_range (val0 scr) 0 (nq * (m * m)) F ! k * deref w (k div (m * m)))
        = store_range (val0 scr) 0 (nq * (m * m)) (\<lambda>k. F k * deref w (k div (m * m)))"
      by (rule store_range_cong) (simp add: nth_store_range)
    then show ?thesis
      using scr by (simp add: fmf_mulAF_def gtg1_def m_def nq_def Let_def)
  qed
  define gtg2 where "gtg2 = scr\<lparr>val0 := store_range (val0 scr) 0 (nq * (m * m)) (\<lambda>k. F k * deref w (k div (m * m)))\<rparr>"
  have rd: "val0 gtg2 ! (val gtg2 + nCol gtg2 * nRow gtg2 * q + k)
        = gtg_entry G q (k div m) (k mod m) * deref w q" if "q < nq" "k < m * m" for q k
  proof -
    have "m * m * q + k < nq * (m * m)" using that by (rule index_in_levels)
    moreover have "(m * m * q + k) div (m * m) = q" "(m * m * q + k) mod (m * m) = k"
      using level_index_div_mod [of k "m * m" q] that by simp_all
    moreover have "(m * m * q + k) mod m = k mod m"
      by (simp add: mult.assoc)
    ultimately show ?thesis using scr that
      by (simp add: gtg2_def m_def [symmetric] nq_def [symmetric] nth_store_range F_def)
  qed
  have sum: "fmf_sumLevelsMulF (FMF_SetCell out ii) gtg2 (ptr_val (FMF_SetCell (vg_det vg) ii))
      = out\<lparr>val0 := store_range (val0 out) (ii * (m * m)) (m * m)
             (\<lambda>k. laplace_sum coef vg ii (k div m) (k mod m)), val := ii * (m * m)\<rparr>"
  proof -
    have nl: "nLev gtg2 = nq" using scr by (simp add: gtg2_def nq_def)
    have "store_range (val0 out) (ii * (m * m)) (m * m)
            (\<lambda>i. fold (\<lambda>il acc. acc + val0 gtg2 ! (val gtg2 + nCol gtg2 * nRow gtg2 * il + i)
                                        * deref (ptr_val (FMF_SetCell (vg_det vg) ii)) il) [0..<nq] 0)
        = store_range (val0 out) (ii * (m * m)) (m * m)
            (\<lambda>k. laplace_sum coef vg ii (k div m) (k mod m))"
    proof (rule store_range_cong)
      fix k
      assume k: "k < m * m"
      show "fold (\<lambda>il acc. acc + val0 gtg2 ! (val gtg2 + nCol gtg2 * nRow gtg2 * il + k)
                                        * deref (ptr_val (FMF_SetCell (vg_det vg) ii)) il) [0..<nq] 0
          = laplace_sum coef vg ii (k div m) (k mod m)"
        unfolding laplace_sum_def nq_def [symmetric] G_def [symmetric] w_def [symmetric]
        by (rule fold_cong) (use k in \<open>simp_all add: rd\<close>)
    qed
    then show ?thesis
      using o by (simp add: fmf_sumLevelsMulF_def nl FMF_SetCell_def cellSize_def m_def)
  qed
  have cell: "dw_laplace_cell grad coef vg isDiff ii (out, scr)
      = Inr (RET_OK, (fmf_sumLevelsMulF (FMF_SetCell out ii) gtg2 (ptr_val (FMF_SetCell (vg_det vg) ii)), gtg2))"
    using diff build mulAF
    by (simp add: dw_laplace_cell_def Let_def G_def [symmetric] w_def [symmetric]
        gtg1_def [symmetric] gtg2_def [symmetric])
  show ?thesis
    unfolding cell sum
    by (rule exI [of _ "val0 gtg2"]) (simp add: gtg2_def m_def)
qed

lemma dw_laplace_matrix_cells:
  fixes out :: "'a::{zero,plus,times} FMField"
  assumes valid: "valid_laplace out coef vg" and diff: "isDiff \<noteq> 0"
  shows "\<exists>b v. dw_laplace out grad coef vg isDiff = Inr (RET_OK, out\<lparr>val0 := b, val := v\<rparr>)
           \<and> length b = length (val0 out)
           \<and> (\<forall>ii<nCell out. \<forall>i<nCol (vg_bfGM vg). \<forall>j<nCol (vg_bfGM vg).
                 entry (out\<lparr>val0 := b, val := v\<rparr>) ii 0 i j = laplace_sum coef vg ii i j)"
proof -
  define m where "m = nCol (vg_bfGM vg)"
  define nq where "nq = nLev (vg_bfGM vg)"
  define I where "I = (\<lambda>scr :: 'a FMField. nLev scr = nq \<and> nRow scr = m \<and> nCol scr = m \<and> val scr = 0
        \<and> length (val0 scr) = nq * (m * m))"
  define V where "V = (\<lambda>ii k. laplace_sum coef vg ii (k div m) (k mod m))"
  have v: "nRow (vg_bfGM vg) = 2 \<or> nRow (vg_bfGM vg) = 3" "nLev out = 1" "nRow out = m" "nCol out = m"
    "length (val0 out) = nCell out * (m * m)"
    using valid by (simp_all add: valid_laplace_def m_def sized_def cellSize_def)
  have step: "\<exists>s'. dw_laplace_cell grad coef vg isDiff ii (out\<lparr>val0 := b, val := v\<rparr>, s)
                   = Inr (RET_OK, (out\<lparr>val0 := store_range b (ii * (m * m)) (m * m) (V ii),
                                       val := ii * (m * m)\<rparr>, s'))
                \<and> I s'"
    if "I s" for ii b v s
    using dw_laplace_cell_matrix_step [of vg "out\<lparr>val0 := b, val := v\<rparr>" s isDiff grad coef ii] v that diff
    by (auto simp add: I_def m_def nq_def V_def)
  have init: "I (fmf_createAlloc 1 nq m m)"
    by (simp add: I_def fmf_createAlloc_def)
  have "if \<exists>ii<nCell out. False
         then cell_loop (dw_laplace_cell grad coef vg isDiff) [0..<nCell out] (out, fmf_createAlloc 1 nq m m) = Inl ShapeFault
         else \<exists>b v s'. cell_loop (dw_laplace_cell grad coef vg isDiff) [0..<nCell out] (out, fmf_createAlloc 1 nq m m)
                  = Inr (RET_OK, (out\<lparr>val0 := b, val := v\<rparr>, s'))
                \<and> I s' \<and> length b = length (val0 out)
                \<and> (\<forall>ii<nCell out. \<forall>k<m * m. ii * (m * m) + k < length (val0 out) \<longrightarrow> b ! (ii * (m * m) + k) = V ii k)
                \<and> (\<forall>k<length (val0 out). nCell out * (m * m) \<le> k \<longrightarrow> b ! k = val0 out ! k)"
    by (rule cell_loop_cells [where I = I and Z = "\<lambda>_. False"]) (use step init in simp_all)
  then obtain b v s' where run: "cell_loop (dw_laplace_cell grad coef vg isDiff) [0..<nCell out] (out, fmf_createAlloc 1 nq m m)
                  = Inr (RET_OK, (out\<lparr>val0 := b, val := v\<rparr>, s'))"
    and len: "length b = length (val0 out)"
    and cells: "\<forall>ii<nCell out. \<forall>k<m * m. ii * (m * m) + k < length (val0 out) \<longrightarrow> b ! (ii * (m * m) + k) = V ii k"
    by auto
  have res: "dw_laplace out grad coef vg isDiff = Inr (RET_OK, out\<lparr>val0 := b, val := v\<rparr>)"
    using diff run by (simp add: dw_laplace_def finish_def m_def nq_def)
  have ent: "entry (out\<lparr>val0 := b, val := v\<rparr>) ii 0 i j = laplace_sum coef vg ii i j"
    if "ii < nCell out" "i < m" "j < m" for ii i j
  proof -
    have k: "i * m + j < m * m" using that by (simp add: index_in_square)
    have "m * m * ii + (i * m + j) < nCell out * (m * m)"
      using that(1) k by (rule index_in_levels)
    then have "ii * (m * m) + (i * m + j) < length (val0 out)"
      using v by (simp add: mult.commute)
    then have "b ! (ii * (m * m) + (i * m + j)) = V ii (i * m + j)"
      using cells that(1) k by blast
    then show ?thesis using v that by (simp add: entry_def cellSize_def V_def add.assoc)
  qed
  show ?thesis using res len ent unfolding m_def by blast
qed

lemma fold_add_sum:
  "fold (\<lambda>q acc. acc + h q) [0..<n] (0::'a::comm_monoid_add) = (\<Sum>q<n. h q)"
  by (induction n) (simp_all add: add.commute)

text \<open>In exact arithmetic the accumulated value is the quadrature sum.\<close>

lemma gtg_entry_sum:
  fixes gc :: "'a::comm_semiring_1 FMField"
  assumes "nRow gc = 2 \<or> nRow gc = 3"
  shows "gtg_entry (FMF_SetCell gc ii) q i j = (\<Sum>d<nRow gc. entry gc ii q d i * entry gc ii q d j)"
  using assms
  by (auto simp add: gtg_entry_def Let_def FMF_PtrLevel_def FMF_SetCell_def entry_def
      lessThan_Suc numeral_2_eq_2 numeral_3_eq_3 ac_simps)

lemma laplace_sum_eq:
  fixes out :: "'a::comm_semiring_1 FMField"
  assumes valid: "valid_laplace out coef vg"
  shows "laplace_sum coef vg ii i j =
     (\<Sum>q<nLev (vg_bfGM vg). entry (vg_det vg) ii q 0 0
         * entry coef (if 1 < nCell coef then ii else 0) q 0 0
         * (\<Sum>d<nRow (vg_bfGM vg). entry (vg_bfGM vg) ii q d i * entry (vg_bfGM vg) ii q d j))"
proof -
  have dim: "nRow (vg_bfGM vg) = 2 \<or> nRow (vg_bfGM vg) = 3"
    using valid by (simp add: valid_laplace_def)
  have w: "deref (ptr_val (FMF_SetCell (vg_det vg) ii)) q = entry (vg_det vg) ii q 0 0" for q
    using valid by (simp add: valid_laplace_def deref_def ptr_val_def FMF_SetCell_def entry_def)
  have c: "deref (ptr_val (set_cell_coef coef ii)) q
      = entry coef (if 1 < nCell coef then ii else 0) q 0 0" for q
    using valid
    by (auto simp add: valid_laplace_def deref_def ptr_val_def set_cell_coef_def FMF_SetCell_def
        entry_def)
  show ?thesis
    unfolding laplace_sum_def w c gtg_entry_sum [OF dim] fold_add_sum
    by (rule sum.cong) (simp_all add: ac_simps)
qed

lemma sum_lessThan_2: "(\<Sum>d<2. f d) = f 0 + f (1::nat)" for f :: "nat \<Rightarrow> 'a::comm_monoid_add"
  by (simp add: numeral_2_eq_2)

lemma sum_lessThan_3: "(\<Sum>d<3. f d) = f 0 + f 1 + f (2::nat)" for f :: "nat \<Rightarrow> 'a::comm_monoid_add"
  by (simp add: numeral_3_eq_3 numeral_2_eq_2)

section \<open>Symmetry and the quadratic form\<close>




section \<open>Products into scratch buffers\<close>

lemma store_range_all: "length b = n \<Longrightarrow> store_range b 0 n f = map f [0..<n]"
  by (rule nth_equalityI) (simp_all add: nth_store_range)

text \<open>A product into a scratch buffer of one cell overwrites all of it.\<close>

lemma product_scratch:
  assumes "(if tA then nCol A else nRow A) = nRow s"
    and "(if tB then nRow B else nCol B) = nCol s"
    and "(if tA then nRow A else nCol A) = (if tB then nCol B else nRow B)"
    and "val s = 0" and "length (val0 s) = nLev s * (nRow s * nCol s)"
  shows "product s A B tA tB =
     Inr (s\<lparr>val0 := map (product_entry (nLev s) (nRow s) (nCol s) A B tA tB)
                        [0..<nLev s * (nRow s * nCol s)]\<rparr>)"
  using assms by (simp add: product_def Let_def store_range_all)

text \<open>The weighted sum of the levels of such a scratch buffer.\<close>

lemma sumLevels_scratch:
  assumes a: "val a = 0" "val0 a = map F [0..<nLev a * (nRow a * nCol a)]"
    and r: "nRow a = nRow r" "nCol a = nCol r"
  shows "fmf_sumLevelsMulF r a w =
     r\<lparr>val0 := store_range (val0 r) (val r) (nRow r * nCol r)
        (\<lambda>i. fold (\<lambda>il acc. acc + F (nRow r * nCol r * il + i) * deref w il) [0..<nLev a] 0)\<rparr>"
proof -
  have "store_range (val0 r) (val r) (nRow r * nCol r)
          (\<lambda>i. fold (\<lambda>il acc. acc + val0 a ! (val a + nCol a * nRow a * il + i) * deref w il)
                  [0..<nLev a] 0)
      = store_range (val0 r) (val r) (nRow r * nCol r)
          (\<lambda>i. fold (\<lambda>il acc. acc + F (nRow r * nCol r * il + i) * deref w il) [0..<nLev a] 0)"
  proof (rule store_range_cong)
    fix k
    assume k: "k < nRow r * nCol r"
    show "fold (\<lambda>il acc. acc + val0 a ! (val a + nCol a * nRow a * il + k) * deref w il) [0..<nLev a] 0
        = fold (\<lambda>il acc. acc + F (nRow r * nCol r * il + k) * deref w il) [0..<nLev a] 0"
    proof (rule fold_cong)
      fix il
      assume "il \<in> set [0..<nLev a]"
      then have "il < nLev a" by simp
      then have "nRow r * nCol r * il + k < nLev a * (nRow r * nCol r)"
        using k by (rule index_in_levels)
      then show "(\<lambda>acc. acc + val0 a ! (val a + nCol a * nRow a * il + k) * deref w il)
          = (\<lambda>acc. acc + F (nRow r * nCol r * il + k) * deref w il)"
        using a r by (simp add: mult.commute)
    qed simp_all
  qed
  then show ?thesis by (simp add: fmf_sumLevelsMulF_def)
qed

lemma product_entry_at:
  assumes "i < nR" "j < nC"
  shows "product_entry nL nR nC A B tA tB (nR * nC * l + (i * nC + j)) =
     fold (\<lambda>kk acc. acc + mat_get A (level_ptr A nL l) tA i kk * mat_get B (level_ptr B nL l) tB kk j)
       [0..<(if tA then nRow A else nCol A)] 0"
proof -
  have k: "i * nC + j < nR * nC"
  proof -
    have "i * nC + j < Suc i * nC" using assms by simp
    also have "\<dots> \<le> nR * nC" using assms by (simp add: Suc_leI mult_le_mono1 del: mult_Suc)
    finally show ?thesis .
  qed
  have "(nR * nC * l + (i * nC + j)) div (nR * nC) = l"
    "(nR * nC * l + (i * nC + j)) mod (nR * nC) = i * nC + j"
    using level_index_div_mod [OF k, of l] by simp_all
  moreover have "(i * nC + j) div nC = i" "(i * nC + j) mod nC = j"
    using assms by simp_all
  ultimately show ?thesis by (simp add: product_entry_def Let_def)
qed

text \<open>Entry \<open>(i, j)\<close> of \<open>A\<^sup>T B\<^sup>T\<close> is entry \<open>(j, i)\<close> of \<open>B A\<close>; the multiplication
  commutes, no other law is needed.\<close>

lemma product_entry_transpose:
  fixes A :: "'a::{zero,plus,ab_semigroup_mult} FMField"
  assumes "i < n" "j < n" "nRow A = nCol B"
  shows "product_entry nL n n A B True True (n * n * l + (i * n + j))
       = product_entry nL n n B A False False (n * n * l + (j * n + i))"
  unfolding product_entry_at [OF assms(1,2)] product_entry_at [OF assms(2,1)]
  using assms(3) by (simp add: mat_get_def mult.commute)

section \<open>The coupling matrix, element by element\<close>

lemma dw_diffusion_coupling_matrix_cells:
  fixes out :: "'a::{zero,plus,times} FMField"
  assumes valid: "valid_coupling out mtxD bf vg nEP elList elList_nRow" and diff: "isDiff \<noteq> 0"
  shows "\<exists>b v. dw_diffusion_coupling out state offset mtxD bf vg conn nEl nEP elList elList_nRow
                 isDiff mode
             = Inr (RET_OK, out\<lparr>val0 := b, val := v\<rparr>)
           \<and> length b = length (val0 out)
           \<and> (\<forall>ii<elList_nRow. \<forall>i<nEP. \<forall>j<nEP.
                 entry (out\<lparr>val0 := b, val := v\<rparr>) ii 0 i j
                   = coupling_sum mode mtxD bf vg elList ii i j)"
proof -
  define m where "m = nCol (vg_bfGM vg)"
  define nq where "nq = nLev (vg_bfGM vg)"
  define I where "I = (\<lambda>s :: 'a FMField \<times> 'a FMField.
      (\<exists>b. fst s = (fmf_createAlloc 1 nq m 1)\<lparr>val0 := b\<rparr> \<and> length b = nq * (m * 1))
    \<and> (\<exists>b. snd s = (fmf_createAlloc 1 nq m m)\<lparr>val0 := b\<rparr> \<and> length b = nq * (m * m)))"
  define V where "V = (\<lambda>ii k. coupling_sum mode mtxD bf vg elList ii (k div m) (k mod m))"
  have v: "nEP = m" "nLev out = 1" "nRow out = m" "nCol out = m" "nCol bf = m" "nRow bf = 1"
    "nCol mtxD = 1" "nRow mtxD = nRow (vg_bfGM vg)" "nCell out = elList_nRow"
    "length (val0 out) = elList_nRow * (m * m)"
    using valid by (auto simp add: valid_coupling_def m_def sized_def cellSize_def)
  have step: "\<exists>s'. dw_diffusion_coupling_matrix_cell mtxD bf vg elList mode ii (out\<lparr>val0 := b, val := v\<rparr>, s)
                   = Inr (RET_OK, (out\<lparr>val0 := store_range b (ii * (m * m)) (m * m) (V ii),
                                       val := ii * (m * m)\<rparr>, s'))
                \<and> I s'"
    if inv: "I s" for ii b v s
  proof -
    obtain gtd gtdg where s: "s = (gtd, gtdg)" by (cases s)
    obtain b1 b2 where gtd: "gtd = (fmf_createAlloc 1 nq m 1)\<lparr>val0 := b1\<rparr>" "length b1 = nq * (m * 1)"
      and gtdg: "gtdg = (fmf_createAlloc 1 nq m m)\<lparr>val0 := b2\<rparr>" "length b2 = nq * (m * m)"
      using inv unfolding I_def s by auto
    define G1 where "G1 = FMF_SetCell (vg_bfGM vg) (elList ! ii)"
    define D1 where "D1 = set_cell_coef mtxD ii"
    define gtd' where "gtd' = coupling_gtd mtxD vg elList ii"
    have D1s: "nCol D1 = 1" "nRow D1 = nRow (vg_bfGM vg)"
      using v by (simp_all add: D1_def set_cell_coef_def FMF_SetCell_def)
    have G1s: "nCol G1 = m" "nRow G1 = nRow (vg_bfGM vg)"
      by (simp_all add: G1_def FMF_SetCell_def m_def)
    have gtd'_eq: "gtd' = (fmf_createAlloc 1 nq m 1)
        \<lparr>val0 := map (product_entry nq m 1 G1 D1 True False) [0..<nq * (m * 1)]\<rparr>"
      by (simp add: gtd'_def coupling_gtd_def G1_def D1_def m_def nq_def)
    have p1: "fmf_mulATB_nn gtd G1 D1 = Inr gtd'"
      unfolding fmf_mulATB_nn_def gtd'_eq
      using product_scratch [of True G1 gtd False D1] gtd D1s G1s
      by (simp add: fmf_createAlloc_def)
    have gtd's: "nRow gtd' = m" "nCol gtd' = 1"
      by (simp_all add: gtd'_eq fmf_createAlloc_def)
    define PE where "PE = (if mode > 0 then product_entry nq m m bf gtd' True True
                           else product_entry nq m m gtd' bf False False)"
    define gtdg' where "gtdg' = gtdg\<lparr>val0 := map PE [0..<nq * (m * m)]\<rparr>"
    have p2: "(if mode > 0 then fmf_mulATBT_nn gtdg bf gtd' else fmf_mulAB_nn gtdg gtd' bf) = Inr gtdg'"
      unfolding fmf_mulATBT_nn_def fmf_mulAB_nn_def gtdg'_def PE_def
      using product_scratch [of True bf gtdg True gtd'] product_scratch [of False gtd' gtdg False bf]
        gtdg gtd's v
      by (simp add: fmf_createAlloc_def)
    have gs: "val gtdg' = 0" "val0 gtdg' = map PE [0..<nLev gtdg' * (nRow gtdg' * nCol gtdg')]"
      "nRow gtdg' = nRow (FMF_SetCell (out\<lparr>val0 := b, val := v\<rparr>) ii)"
      "nCol gtdg' = nCol (FMF_SetCell (out\<lparr>val0 := b, val := v\<rparr>) ii)"
      "nLev gtdg' = nq"
      using gtdg v by (simp_all add: gtdg'_def fmf_createAlloc_def FMF_SetCell_def)
    have "store_range b (ii * (m * m)) (m * m)
            (\<lambda>i. fold (\<lambda>il acc. acc + PE (m * m * il + i)
                  * deref (ptr_val (FMF_SetCell (vg_det vg) (elList ! ii))) il) [0..<nq] 0)
        = store_range b (ii * (m * m)) (m * m) (V ii)"
    proof (rule store_range_cong)
      fix k
      assume k: "k < m * m"
      then have "0 < m" by (cases m) simp_all
      then have km: "k div m * m + k mod m = k" by simp
      show "fold (\<lambda>il acc. acc + PE (m * m * il + k)
                  * deref (ptr_val (FMF_SetCell (vg_det vg) (elList ! ii))) il) [0..<nq] 0 = V ii k"
        unfolding V_def coupling_sum_def Let_def km PE_def gtd'_def m_def nq_def by simp
    qed
    then have sum: "fmf_sumLevelsMulF (FMF_SetCell (out\<lparr>val0 := b, val := v\<rparr>) ii) gtdg'
          (ptr_val (FMF_SetCell (vg_det vg) (elList ! ii)))
        = out\<lparr>val0 := store_range b (ii * (m * m)) (m * m) (V ii), val := ii * (m * m)\<rparr>"
      unfolding sumLevels_scratch [OF gs(1,2,3,4)] gs(5)
      using v by (simp add: FMF_SetCell_def cellSize_def)
    have "I (gtd', gtdg')"
      using gtdg by (auto simp add: I_def gtd'_eq gtdg'_def)
    moreover have "dw_diffusion_coupling_matrix_cell mtxD bf vg elList mode ii (out\<lparr>val0 := b, val := v\<rparr>, s)
        = Inr (RET_OK, (out\<lparr>val0 := store_range b (ii * (m * m)) (m * m) (V ii), val := ii * (m * m)\<rparr>,
                        gtd', gtdg'))"
      using p1 p2 sum
      by (simp add: dw_diffusion_coupling_matrix_cell_def s Let_def bind_fault_def
          G1_def [symmetric] D1_def [symmetric])
    ultimately show ?thesis by blast
  qed
  have init: "I (fmf_createAlloc 1 nq m 1, fmf_createAlloc 1 nq m m)"
    unfolding I_def
    by (auto simp add: fmf_createAlloc_def intro!: exI [of _ "replicate (nq * m) 0"]
        exI [of _ "replicate (nq * m * m) 0"])
  let ?loop = "cell_loop (dw_diffusion_coupling_matrix_cell mtxD bf vg elList mode) [0..<elList_nRow]
                (out, fmf_createAlloc 1 nq m 1, fmf_createAlloc 1 nq m m)"
  have "if \<exists>ii<elList_nRow. False
         then ?loop = Inl ShapeFault
         else \<exists>b v s'. ?loop = Inr (RET_OK, (out\<lparr>val0 := b, val := v\<rparr>, s'))
                \<and> I s' \<and> length b = length (val0 out)
                \<and> (\<forall>ii<elList_nRow. \<forall>k<m * m. ii * (m * m) + k < length (val0 out) \<longrightarrow> b ! (ii * (m * m) + k) = V ii k)
                \<and> (\<forall>k<length (val0 out). elList_nRow * (m * m) \<le> k \<longrightarrow> b ! k = val0 out ! k)"
    by (rule cell_loop_cells [where I = I and Z = "\<lambda>_. False"]) (use step init in simp_all)
  then obtain b v s' where run: "?loop = Inr (RET_OK, (out\<lparr>val0 := b, val := v\<rparr>, s'))"
    and len: "length b = length (val0 out)"
    and cells: "\<forall>ii<elList_nRow. \<forall>k<m * m. ii * (m * m) + k < length (val0 out) \<longrightarrow> b ! (ii * (m * m) + k) = V ii k"
    by auto
  have res: "dw_diffusion_coupling out state offset mtxD bf vg conn nEl nEP elList elList_nRow isDiff mode
      = Inr (RET_OK, out\<lparr>val0 := b, val := v\<rparr>)"
    using diff run v(1) by (simp add: dw_diffusion_coupling_def finish_def m_def nq_def)
  have ent: "entry (out\<lparr>val0 := b, val := v\<rparr>) ii 0 i j = coupling_sum mode mtxD bf vg elList ii i j"
    if "ii < elList_nRow" "i < m" "j < m" for ii i j
  proof -
    have k: "i * m + j < m * m" using that by (simp add: index_in_square)
    have "m * m * ii + (i * m + j) < elList_nRow * (m * m)"
      using that(1) k by (rule index_in_levels)
    then have "ii * (m * m) + (i * m + j) < length (val0 out)"
      using v by (simp add: mult.commute)
    then have "b ! (ii * (m * m) + (i * m + j)) = V ii (i * m + j)"
      using cells that(1) k by blast
    then show ?thesis using v that by (simp add: entry_def cellSize_def V_def add.assoc)
  qed
  show ?thesis using res len ent unfolding v(1) by blast
qed

section \<open>The surface flux, cell by cell\<close>

lemma valid_surface_flux_shapes:
  "valid_surface_flux out grad mtxD sg \<Longrightarrow> flux_shapes out grad mtxD sg"
  by (simp add: valid_surface_flux_def flux_shapes_def)

lemma d_surface_flux_cells:
  fixes out :: "'a::{zero,one,plus,times,inverse} FMField"
  assumes valid: "flux_shapes out grad mtxD sg"
  shows "if mode = 1 \<and> (\<exists>ii<nCell out. entry (sg_area sg) ii 0 0 0 = 0)
         then d_surface_flux out grad mtxD sg mode = Inl ZeroDivide
         else \<exists>b v. d_surface_flux out grad mtxD sg mode = Inr (RET_OK, out\<lparr>val0 := b, val := v\<rparr>)
                \<and> length b = length (val0 out)
                \<and> (\<forall>ii<nCell out. entry (out\<lparr>val0 := b, val := v\<rparr>) ii 0 0 0
                      = (if mode = 1 then flux_sum grad mtxD sg ii * (1 / entry (sg_area sg) ii 0 0 0)
                         else flux_sum grad mtxD sg ii))"
proof -
  define nd where "nd = nRow (sg_normal sg)"
  define nq where "nq = nLev (sg_normal sg)"
  define I where "I = (\<lambda>s :: 'a FMField \<times> 'a FMField.
      (\<exists>b. fst s = (fmf_createAlloc 1 nq nd 1)\<lparr>val0 := b\<rparr> \<and> length b = nq * (nd * 1))
    \<and> (\<exists>b. snd s = (fmf_createAlloc 1 nq 1 1)\<lparr>val0 := b\<rparr> \<and> length b = nq * (1 * 1)))"
  define Z where "Z = (\<lambda>ii. mode = 1 \<and> entry (sg_area sg) ii 0 0 0 = 0)"
  define V where "V = (\<lambda>ii (k::nat). if mode = 1
      then flux_sum grad mtxD sg ii * (1 / entry (sg_area sg) ii 0 0 0) else flux_sum grad mtxD sg ii)"
  have v: "nLev out = 1" "nRow out = 1" "nCol out = 1" "length (val0 out) = nCell out"
    "nCol (sg_normal sg) = 1" "nRow grad = nd" "nCol grad = 1" "nRow mtxD = nd" "nCol mtxD = nd"
    "nLev (sg_area sg) = 1" "nRow (sg_area sg) = 1" "nCol (sg_area sg) = 1"
    using valid by (auto simp add: flux_shapes_def nd_def sized_def cellSize_def)
  have area: "deref (ptr_val (FMF_SetCell (sg_area sg) ii)) 0 = entry (sg_area sg) ii 0 0 0" for ii
    by (simp add: deref_def ptr_val_def FMF_SetCell_def entry_def)
  have body: "d_surface_flux_cell grad mtxD sg mode ii (out\<lparr>val0 := b, val := v\<rparr>, s)
       = (if Z ii then Inl ZeroDivide
          else Inr (RET_OK, (out\<lparr>val0 := store_range b (ii * 1) 1 (V ii), val := ii * 1\<rparr>,
                             flux_dgp grad mtxD sg ii,
                             (fmf_createAlloc 1 nq 1 1)\<lparr>val0 := map (product_entry nq 1 1
                                 (FMF_SetCell (sg_normal sg) ii) (flux_dgp grad mtxD sg ii) True False)
                                 [0..<nq * (1 * 1)]\<rparr>)))"
    if inv: "I s" for ii b v s
  proof -
    obtain dgp ntdgp where s: "s = (dgp, ntdgp)" by (cases s)
    obtain b1 b2 where dgp: "dgp = (fmf_createAlloc 1 nq nd 1)\<lparr>val0 := b1\<rparr>" "length b1 = nq * (nd * 1)"
      and ntdgp: "ntdgp = (fmf_createAlloc 1 nq 1 1)\<lparr>val0 := b2\<rparr>" "length b2 = nq * (1 * 1)"
      using inv unfolding I_def s by auto
    define G1 where "G1 = FMF_SetCell grad ii"
    define D1 where "D1 = FMF_SetCell mtxD ii"
    define N1 where "N1 = FMF_SetCell (sg_normal sg) ii"
    define dgp' where "dgp' = flux_dgp grad mtxD sg ii"
    have sh: "nRow G1 = nd" "nCol G1 = 1" "nRow D1 = nd" "nCol D1 = nd" "nRow N1 = nd" "nCol N1 = 1"
      using v by (simp_all add: G1_def D1_def N1_def FMF_SetCell_def nd_def)
    have dgp'_eq: "dgp' = (fmf_createAlloc 1 nq nd 1)
        \<lparr>val0 := map (product_entry nq nd 1 D1 G1 False False) [0..<nq * (nd * 1)]\<rparr>"
      by (simp add: dgp'_def flux_dgp_def G1_def D1_def nd_def nq_def)
    have p1: "fmf_mulAB_nn dgp D1 G1 = Inr dgp'"
      unfolding fmf_mulAB_nn_def dgp'_eq
      using product_scratch [of False D1 dgp False G1] dgp sh
      by (simp add: fmf_createAlloc_def)
    have dgp's: "nRow dgp' = nd" "nCol dgp' = 1"
      by (simp_all add: dgp'_eq fmf_createAlloc_def)
    define PE where "PE = product_entry nq 1 1 N1 dgp' True False"
    define ntdgp' where "ntdgp' = (fmf_createAlloc 1 nq 1 1)\<lparr>val0 := map PE [0..<nq * (1 * 1)]\<rparr>"
    have p2: "fmf_mulATB_nn ntdgp N1 dgp' = Inr ntdgp'"
      unfolding fmf_mulATB_nn_def ntdgp'_def PE_def
      using product_scratch [of True N1 ntdgp False dgp'] ntdgp dgp's sh
      by (simp add: fmf_createAlloc_def)
    have gs: "val ntdgp' = 0" "val0 ntdgp' = map PE [0..<nLev ntdgp' * (nRow ntdgp' * nCol ntdgp')]"
      "nRow ntdgp' = nRow (FMF_SetCell (out\<lparr>val0 := b, val := v\<rparr>) ii)"
      "nCol ntdgp' = nCol (FMF_SetCell (out\<lparr>val0 := b, val := v\<rparr>) ii)"
      "nLev ntdgp' = nq"
      using v by (simp_all add: ntdgp'_def fmf_createAlloc_def FMF_SetCell_def)
    define T where "T = flux_sum grad mtxD sg ii"
    have "store_range b (ii * 1) 1
            (\<lambda>i. fold (\<lambda>il acc. acc + PE (1 * 1 * il + i)
                  * deref (ptr_val (FMF_SetCell (sg_det sg) ii)) il) [0..<nq] 0)
        = store_range b (ii * 1) 1 (\<lambda>k. T)"
      by (rule store_range_cong)
        (simp add: T_def flux_sum_def PE_def N1_def dgp'_def nq_def)
    then have sum: "fmf_sumLevelsMulF (FMF_SetCell (out\<lparr>val0 := b, val := v\<rparr>) ii) ntdgp'
          (ptr_val (FMF_SetCell (sg_det sg) ii))
        = out\<lparr>val0 := store_range b (ii * 1) 1 (\<lambda>k. T), val := ii * 1\<rparr>"
      unfolding sumLevels_scratch [OF gs(1,2,3,4)] gs(5)
      using v by (simp add: FMF_SetCell_def cellSize_def)
    have mulC: "fmf_mulC (out\<lparr>val0 := store_range b (ii * 1) 1 (\<lambda>k. T), val := ii * 1\<rparr>) c
        = out\<lparr>val0 := store_range b (ii * 1) 1 (\<lambda>k. T * c), val := ii * 1\<rparr>" for c
    proof -
      have "store_range (store_range b (ii * 1) 1 (\<lambda>k. T)) (ii * 1) 1
              (\<lambda>k. store_range b (ii * 1) 1 (\<lambda>k. T) ! (ii * 1 + k) * c)
          = store_range b (ii * 1) 1 (\<lambda>k. T * c)"
        unfolding store_range_twice
        by (rule store_range_cong) (simp add: nth_store_range)
      then show ?thesis using v by (simp add: fmf_mulC_def cellSize_def)
    qed
    show ?thesis
      using p1 p2 sum mulC
      by (simp add: d_surface_flux_cell_def s Let_def bind_fault_def Z_def V_def area
          G1_def [symmetric] D1_def [symmetric] N1_def [symmetric] dgp'_def [symmetric]
          T_def [symmetric] ntdgp'_def PE_def)
  qed
  have inv': "I (flux_dgp grad mtxD sg ii,
                 (fmf_createAlloc 1 nq 1 1)\<lparr>val0 := map (product_entry nq 1 1
                     (FMF_SetCell (sg_normal sg) ii) (flux_dgp grad mtxD sg ii) True False)
                     [0..<nq * (1 * 1)]\<rparr>)" for ii
    by (auto simp add: I_def flux_dgp_def nd_def nq_def)
  have init: "I (fmf_createAlloc 1 nq nd 1, fmf_createAlloc 1 nq 1 1)"
    unfolding I_def
    by (auto simp add: fmf_createAlloc_def intro!: exI [of _ "replicate (nq * nd) 0"]
        exI [of _ "replicate nq 0"])
  let ?loop = "cell_loop (d_surface_flux_cell grad mtxD sg mode) [0..<nCell out]
                (out, fmf_createAlloc 1 nq nd 1, fmf_createAlloc 1 nq 1 1)"
  have loop: "if \<exists>ii<nCell out. Z ii
         then ?loop = Inl ZeroDivide
         else \<exists>b v s'. ?loop = Inr (RET_OK, (out\<lparr>val0 := b, val := v\<rparr>, s'))
                \<and> I s' \<and> length b = length (val0 out)
                \<and> (\<forall>ii<nCell out. \<forall>k<1. ii * 1 + k < length (val0 out) \<longrightarrow> b ! (ii * 1 + k) = V ii k)
                \<and> (\<forall>k<length (val0 out). nCell out * 1 \<le> k \<longrightarrow> b ! k = val0 out ! k)"
    by (rule cell_loop_cells [where I = I and Z = Z]) (use body inv' init in simp_all)
  have res: "d_surface_flux out grad mtxD sg mode = finish ?loop"
    by (simp add: d_surface_flux_def nd_def nq_def Let_def)
  show ?thesis
  proof (cases "\<exists>ii<nCell out. Z ii")
    case True
    then show ?thesis using loop res by (auto simp add: Z_def finish_def)
  next
    case False
    then obtain b v s' where run: "?loop = Inr (RET_OK, (out\<lparr>val0 := b, val := v\<rparr>, s'))"
      and len: "length b = length (val0 out)"
      and cells: "\<forall>ii<nCell out. \<forall>k<1. ii * 1 + k < length (val0 out) \<longrightarrow> b ! (ii * 1 + k) = V ii k"
      using loop unfolding if_not_P [OF False] by blast
    have nz: "\<not> (mode = 1 \<and> (\<exists>ii<nCell out. entry (sg_area sg) ii 0 0 0 = 0))"
      using False by (auto simp add: Z_def)
    have r: "d_surface_flux out grad mtxD sg mode = Inr (RET_OK, out\<lparr>val0 := b, val := v\<rparr>)"
      using run res by (simp add: finish_def)
    have e: "\<forall>ii<nCell out. entry (out\<lparr>val0 := b, val := v\<rparr>) ii 0 0 0
                = (if mode = 1 then flux_sum grad mtxD sg ii * (1 / entry (sg_area sg) ii 0 0 0)
                   else flux_sum grad mtxD sg ii)"
      using cells v by (simp add: entry_def cellSize_def V_def)
    show ?thesis
      unfolding if_not_P [OF nz] using r len e by blast
  qed
qed

section \<open>Two runs that differ in the initial output\<close>




















section \<open>Evaluators that run to the end\<close>

text \<open>Positioning a buffer, gathering into it and scaling it keep its shape.\<close>

lemma shape_cursor:
  "nLev (FMF_SetCell f ii) = nLev f" "nRow (FMF_SetCell f ii) = nRow f"
  "nCol (FMF_SetCell f ii) = nCol f"
  "nLev (set_cell_coef f ii) = nLev f" "nRow (set_cell_coef f ii) = nRow f"
  "nCol (set_cell_coef f ii) = nCol f"
  "nLev (ele_extractNodalValuesNBN f state conn) = nLev f"
  "nRow (ele_extractNodalValuesNBN f state conn) = nRow f"
  "nCol (ele_extractNodalValuesNBN f state conn) = nCol f"
  "nLev (fmf_mulAF f A w) = nLev f" "nRow (fmf_mulAF f A w) = nRow f"
  "nCol (fmf_mulAF f A w) = nCol f"
  by (simp_all add: FMF_SetCell_def set_cell_coef_def ele_extractNodalValuesNBN_def fmf_mulAF_def)











text \<open>With the scratch buffers \<open>aux1\<close> and \<open>aux2\<close> as lines 525 and 526 allocate
  them, a product of \<open>d_diffusion_coupling\<close> has incompatible shapes for every
  gradient that has not exactly one row: the one of line 544 with \<open>mode > 0\<close>,
  and otherwise the one of line 551 if none before it. The evaluation of the
  first listed element is a shape fault.\<close>

lemma d_diffusion_coupling_shape_fault:
  assumes "nRow (vg_bfGM vg) \<noteq> 1" and "0 < elList_nRow"
  shows "d_diffusion_coupling out stateP stateQ mtxD bf vg conn nEl nEP elList elList_nRow
            isDiff mode = Inl ShapeFault"
proof -
  have "[0..<elList_nRow] = 0 # [1..<elList_nRow]" using assms(2) by (simp add: upt_rec)
  then show ?thesis using assms(1)
    by (simp add: d_diffusion_coupling_def d_diffusion_coupling_cell_def Let_def
          split_beta bind_fault_def fmf_mulATB_nn_def fmf_mulAB_nn_def fmf_mulAB_n1_def
          fmf_mulATB_1n_def product_def finish_def shape_cursor fmf_createAlloc_def)
qed

section \<open>Rounding to a double\<close>

text \<open>The doubles nearest to \<open>1/10\<close> and \<open>1/3\<close> (\<^verbatim>\<open>0x3FB999999999999A\<close> and
  \<^verbatim>\<open>0x3FD5555555555555\<close>), and a double, which rounds to itself.\<close>

lemma round_float64_tenth: "round_float64 (1 / 10) = 3602879701896397 / 2 ^ 55"
  by code_simp

lemma round_float64_third: "round_float64 (1 / 3) = 6004799503160661 / 2 ^ 54"
  by code_simp

lemma round_float64_exact:
  "round_float64 (7505999378950826 / 2 ^ 52) = 7505999378950826 / 2 ^ 52"
  by code_simp

section \<open>The Laplace matrix\<close>

text \<open>
  Claim C1: for valid inputs with a 2-D or 3-D gradient, \<open>dw_laplace\<close> in matrix
  mode succeeds and writes, for each cell, the matrix whose entry \<open>(i, j)\<close> is
  the sum over the quadrature points \<open>q\<close> of the determinant weight of \<open>q\<close>
  times the coefficient of \<open>q\<close> times the Gramian entry
  \<open>\<Sum>d. G[d,i] * G[d,j]\<close> of the gradient slice of \<open>q\<close>; the coefficient
  is that of the cell, or of its only cell when it is given once. In
  particular, for a single 3-D cell with 4 local dofs, one quadrature point,
  determinant weight 1 and coefficient 2, the output is \<open>2 * G\<^sup>T G\<close>. The
  arithmetic is exact (a commutative semiring).
\<close>

theorem dw_laplace_matrix_entries:
  fixes out :: "'a::comm_semiring_1 FMField"
  assumes valid: "valid_laplace out coef vg" and diff: "isDiff \<noteq> 0"
  shows "\<exists>out'. dw_laplace out grad coef vg isDiff = Inr (RET_OK, out')
     \<and> nCell out' = nCell out \<and> nLev out' = 1
     \<and> nRow out' = nCol (vg_bfGM vg) \<and> nCol out' = nCol (vg_bfGM vg)
     \<and> length (val0 out') = length (val0 out)
     \<and> (\<forall>ii<nCell out. \<forall>i<nCol (vg_bfGM vg). \<forall>j<nCol (vg_bfGM vg).
          entry out' ii 0 i j =
            (\<Sum>q<nLev (vg_bfGM vg). entry (vg_det vg) ii q 0 0
                * entry coef (if 1 < nCell coef then ii else 0) q 0 0
                * (\<Sum>d<nRow (vg_bfGM vg). entry (vg_bfGM vg) ii q d i * entry (vg_bfGM vg) ii q d j)))
     \<and> (nCell out = 1 \<and> nRow (vg_bfGM vg) = 3 \<and> nCol (vg_bfGM vg) = 4 \<and> nLev (vg_bfGM vg) = 1
          \<and> val0 (vg_det vg) = [1] \<and> val0 coef = [2] \<longrightarrow>
        (\<forall>i<4. \<forall>j<4. entry out' 0 0 i j
             = 2 * (\<Sum>d<3. entry (vg_bfGM vg) 0 0 d i * entry (vg_bfGM vg) 0 0 d j)))"
proof -
  obtain b v where res: "dw_laplace out grad coef vg isDiff = Inr (RET_OK, out\<lparr>val0 := b, val := v\<rparr>)"
    and len: "length b = length (val0 out)"
    and ent: "\<forall>ii<nCell out. \<forall>i<nCol (vg_bfGM vg). \<forall>j<nCol (vg_bfGM vg).
                 entry (out\<lparr>val0 := b, val := v\<rparr>) ii 0 i j = laplace_sum coef vg ii i j"
    using dw_laplace_matrix_cells [OF valid diff, of grad] by blast
  let ?out = "out\<lparr>val0 := b, val := v\<rparr>"
  have shape: "nCell ?out = nCell out" "nLev ?out = 1" "nRow ?out = nCol (vg_bfGM vg)"
    "nCol ?out = nCol (vg_bfGM vg)" "length (val0 ?out) = length (val0 out)"
    using valid len by (simp_all add: valid_laplace_def)
  have gen: "\<forall>ii<nCell out. \<forall>i<nCol (vg_bfGM vg). \<forall>j<nCol (vg_bfGM vg).
          entry ?out ii 0 i j =
            (\<Sum>q<nLev (vg_bfGM vg). entry (vg_det vg) ii q 0 0
                * entry coef (if 1 < nCell coef then ii else 0) q 0 0
                * (\<Sum>d<nRow (vg_bfGM vg). entry (vg_bfGM vg) ii q d i * entry (vg_bfGM vg) ii q d j))"
    using ent laplace_sum_eq [OF valid] by simp
  have scen: "\<forall>i<4. \<forall>j<4. entry ?out 0 0 i j
             = 2 * (\<Sum>d<3. entry (vg_bfGM vg) 0 0 d i * entry (vg_bfGM vg) 0 0 d j)"
    if s: "nCell out = 1" "nRow (vg_bfGM vg) = 3" "nCol (vg_bfGM vg) = 4" "nLev (vg_bfGM vg) = 1"
      "val0 (vg_det vg) = [1]" "val0 coef = [2]"
  proof -
    have nc: "nCell coef = 1"
      using valid s by (auto simp add: valid_laplace_def sized_def cellSize_def)
    have w: "entry (vg_det vg) 0 0 0 0 = 1" "entry coef 0 0 0 0 = 2"
      using s by (simp_all add: entry_def)
    show ?thesis
      using gen s nc w by simp
  qed
  show ?thesis
    using res shape gen scen by (intro exI [of _ ?out]) simp
qed

text \<open>The reference tetrahedron: the gradients of the four linear basis
  functions, weight 1, coefficient 2. \<open>G\<^sup>T G\<close> has 3 at \<open>(0, 0)\<close>, \<open>-1\<close> at
  \<open>(0, 1)\<close>, 1 at \<open>(1, 1)\<close> and 0 at \<open>(1, 2)\<close>.\<close>

theorem dw_laplace_matrix_entries_witness:
  "valid_laplace (mk_field 1 1 4 4 (replicate 16 (7 :: int))) (mk_field 1 1 1 1 [2])
      \<lparr>vg_bfGM = mk_field 1 1 3 4 [-1, 1, 0, 0, -1, 0, 1, 0, -1, 0, 0, 1],
       vg_det = mk_field 1 1 1 1 [1]\<rparr>
   \<and> (1 :: int) \<noteq> 0
   \<and> (\<exists>out'. dw_laplace (mk_field 1 1 4 4 (replicate 16 (7 :: int))) (mk_field 1 1 3 1 [0, 0, 0])
          (mk_field 1 1 1 1 [2])
          \<lparr>vg_bfGM = mk_field 1 1 3 4 [-1, 1, 0, 0, -1, 0, 1, 0, -1, 0, 0, 1],
           vg_det = mk_field 1 1 1 1 [1]\<rparr> 1
        = Inr (RET_OK, out')
      \<and> entry out' 0 0 0 0 = 6 \<and> entry out' 0 0 0 1 = - 2
      \<and> entry out' 0 0 1 1 = 2 \<and> entry out' 0 0 1 2 = 0)"
proof -
  let ?out = "mk_field 1 1 4 4 (replicate 16 (7 :: int))"
  let ?coef = "mk_field 1 1 1 1 [2 :: int]"
  let ?G = "mk_field 1 1 3 4 [-1, 1, 0, 0, -1, 0, 1, 0, -1, 0, 0, 1 :: int]"
  let ?vg = "\<lparr>vg_bfGM = ?G, vg_det = mk_field 1 1 1 1 [1]\<rparr>"
  let ?grad = "mk_field 1 1 3 1 [0, 0, 0 :: int]"
  have v: "valid_laplace ?out ?coef ?vg"
    by (simp add: valid_laplace_def mk_field_def sized_def cellSize_def)
  have d: "(1 :: int) \<noteq> 0" by simp
  obtain out' where o: "dw_laplace ?out ?grad ?coef ?vg 1 = Inr (RET_OK, out')"
    and s: "nCell ?out = 1 \<and> nRow (vg_bfGM ?vg) = 3 \<and> nCol (vg_bfGM ?vg) = 4
              \<and> nLev (vg_bfGM ?vg) = 1 \<and> val0 (vg_det ?vg) = [1] \<and> val0 ?coef = [2] \<longrightarrow>
            (\<forall>i<4. \<forall>j<4. entry out' 0 0 i j
               = 2 * (\<Sum>d<3. entry (vg_bfGM ?vg) 0 0 d i * entry (vg_bfGM ?vg) 0 0 d j))"
    using dw_laplace_matrix_entries [OF v d, of ?grad] by blast
  have e: "entry out' 0 0 i j = 2 * (\<Sum>d<3. entry ?G 0 0 d i * entry ?G 0 0 d j)"
    if "i < 4" "j < 4" for i j
    using s that by (simp add: mk_field_def)
  have g: "(\<Sum>d<3. entry ?G 0 0 d 0 * entry ?G 0 0 d 0) = 3"
    "(\<Sum>d<3. entry ?G 0 0 d 0 * entry ?G 0 0 d 1) = - 1"
    "(\<Sum>d<3. entry ?G 0 0 d 1 * entry ?G 0 0 d 1) = 1"
    "(\<Sum>d<3. entry ?G 0 0 d 1 * entry ?G 0 0 d 2) = 0"
    unfolding sum_lessThan_3 by (simp_all add: entry_def mk_field_def cellSize_def)
  have "entry out' 0 0 0 0 = 6" "entry out' 0 0 0 1 = - 2" "entry out' 0 0 1 1 = 2"
    "entry out' 0 0 1 2 = 0"
    using e [of 0 0] e [of 0 1] e [of 1 1] e [of 1 2] g by simp_all
  then show ?thesis using v d o by blast
qed

section \<open>The builder on an unsupported dimension\<close>

text \<open>
  Claim C2, as stated: for a gradient buffer whose row count is neither 2 nor 3,
  \<open>laplace_build_gtg\<close> returns the failure status and leaves the output buffer
  unchanged. The second half fails: the zero fill of line 20 comes before the
  switch. Here the output held 5, 6, 7, 8 and holds other values afterwards.
\<close>

theorem laplace_build_gtg_writes_on_fault:
  "fst (laplace_build_gtg (mk_field 1 1 2 2 [5, 6, 7, 8]) (mk_field 1 1 1 2 [3, 4 :: int]))
     = RET_Fail
   \<and> val0 (snd (laplace_build_gtg (mk_field 1 1 2 2 [5, 6, 7, 8]) (mk_field 1 1 1 2 [3, 4 :: int])))
       \<noteq> val0 (mk_field 1 1 2 2 [5, 6, 7, 8 :: int])"
  by code_simp

text \<open>
  Claim C2, amended: for a gradient buffer whose row count is neither 2 nor 3,
  \<open>laplace_build_gtg\<close> returns the failure status, and the output buffer is the
  one it was given with the current cell filled with zeros: the shape, the
  cursor and the length are kept, the \<open>cellSize\<close> values from the cursor are 0
  and every other value is unchanged.
\<close>

theorem laplace_build_gtg_dim_fault:
  assumes "nRow gc \<noteq> 2" and "nRow gc \<noteq> 3"
  shows "laplace_build_gtg out gc = (RET_Fail, fmf_fillC out 0)
       \<and> fmf_fillC out 0 = out\<lparr>val0 := val0 (fmf_fillC out 0)\<rparr>
       \<and> length (val0 (fmf_fillC out 0)) = length (val0 out)
       \<and> (\<forall>k<length (val0 out). val0 (fmf_fillC out 0) ! k =
             (if val out \<le> k \<and> k < val out + cellSize out then 0 else val0 out ! k))"
  using assms by (simp add: laplace_build_gtg_def Let_def fmf_fillC_def nth_store_range)

theorem laplace_build_gtg_dim_fault_witness:
  "nRow (mk_field 1 1 1 2 [3, 4 :: int]) \<noteq> 2 \<and> nRow (mk_field 1 1 1 2 [3, 4 :: int]) \<noteq> 3
   \<and> laplace_build_gtg (mk_field 1 1 2 2 [5, 6, 7, 8]) (mk_field 1 1 1 2 [3, 4 :: int])
       = (RET_Fail, mk_field 1 1 2 2 [0, 0, 0, 0])"
  using laplace_build_gtg_dim_fault
    [of "mk_field 1 1 1 2 [3, 4 :: int]" "mk_field 1 1 2 2 [5, 6, 7, 8]"]
  by (simp add: mk_field_def fmf_fillC_def store_range_def cellSize_def upt_rec)

section \<open>The coefficient of the surface flux is not broadcast\<close>

text \<open>
  Claim C3 says that every evaluator gives the same per-cell outputs for a
  coefficient buffer of one cell and for the same values replicated for every
  cell of the batch. \<open>d_surface_flux\<close> positions its coefficient on cell \<open>ii\<close>
  whatever its cell count (line 589), where the other evaluators test
  \<^verbatim>\<open>nCell > 1\<close> first. For a batch of two cells in 2-D and the identity as the
  coefficient, given once: the cursor of cell 1 is past the four values of the
  buffer, and the output of cell 1 is computed from the places 6 and 7 of that
  buffer; with the coefficient replicated it is 4, and so it would be with the
  values of the only cell (places 2 and 3).
\<close>

theorem d_surface_flux_no_broadcast:
  "(\<exists>o1. d_surface_flux (mk_field 2 1 1 1 [0, 0]) (mk_field 2 1 2 1 [3, 1, 1, 2 :: real])
            (mk_field 1 1 2 2 [1, 0, 0, 1])
            \<lparr>sg_normal = mk_field 2 1 2 1 [1, 0, 0, 1], sg_det = mk_field 2 1 1 1 [1, 2],
             sg_area = mk_field 2 1 1 1 [2, 4]\<rparr> 0 = Inr (RET_OK, o1)
          \<and> entry o1 1 0 0 0 = 2 * ([1, 0, 0, 1] ! 6 + 2 * [1, 0, 0, 1] ! 7))
   \<and> (\<exists>o2. d_surface_flux (mk_field 2 1 1 1 [0, 0]) (mk_field 2 1 2 1 [3, 1, 1, 2 :: real])
            (mk_field 2 1 2 2 [1, 0, 0, 1, 1, 0, 0, 1])
            \<lparr>sg_normal = mk_field 2 1 2 1 [1, 0, 0, 1], sg_det = mk_field 2 1 1 1 [1, 2],
             sg_area = mk_field 2 1 1 1 [2, 4]\<rparr> 0 = Inr (RET_OK, o2)
          \<and> entry o2 1 0 0 0 = 4)
   \<and> 2 * ([1, 0, 0, 1 :: real] ! 2 + 2 * [1, 0, 0, 1] ! 3) = 4
   \<and> sized (mk_field 1 1 2 2 [1, 0, 0, 1 :: real])
   \<and> val (FMF_SetCell (mk_field 1 1 2 2 [1, 0, 0, 1 :: real]) 1) = 4
   \<and> \<not> in_buffer (FMF_SetCell (mk_field 1 1 2 2 [1, 0, 0, 1 :: real]) 1) 1
   \<and> in_buffer (set_cell_coef (mk_field 1 1 2 2 [1, 0, 0, 1 :: real]) 1) 4"
proof -
  let ?out = "mk_field 2 1 1 1 [0, 0 :: real]"
  let ?grad = "mk_field 2 1 2 1 [3, 1, 1, 2 :: real]"
  let ?sg = "\<lparr>sg_normal = mk_field 2 1 2 1 [1, 0, 0, 1 :: real], sg_det = mk_field 2 1 1 1 [1, 2],
              sg_area = mk_field 2 1 1 1 [2, 4]\<rparr>"
  let ?D1 = "mk_field 1 1 2 2 [1, 0, 0, 1 :: real]"
  let ?D2 = "mk_field 2 1 2 2 [1, 0, 0, 1, 1, 0, 0, 1 :: real]"
  have sh: "flux_shapes ?out ?grad ?D1 ?sg" "flux_shapes ?out ?grad ?D2 ?sg"
    by (simp_all add: flux_shapes_def mk_field_def sized_def cellSize_def)
  have n: "\<not> ((0::int) = 1 \<and> (\<exists>ii<nCell ?out. entry (sg_area ?sg) ii 0 0 0 = 0))" by simp
  have one: "(1::nat) < nCell ?out" by (simp add: mk_field_def)
  have f1: "flux_sum ?grad ?D1 ?sg 1 = 2 * ([1, 0, 0, 1] ! 6 + 2 * [1, 0, 0, 1] ! 7)"
    by (simp add: flux_sum_def flux_dgp_def product_entry_def mat_get_def level_ptr_def
        FMF_PtrLevel_def FMF_PtrCurrent_def FMF_SetCell_def cellSize_def mk_field_def
        fmf_createAlloc_def deref_def ptr_val_def Let_def upt_rec numeral_2_eq_2 numeral_3_eq_3)
  have f2: "flux_sum ?grad ?D2 ?sg 1 = 4"
    by (simp add: flux_sum_def flux_dgp_def product_entry_def mat_get_def level_ptr_def
        FMF_PtrLevel_def FMF_PtrCurrent_def FMF_SetCell_def cellSize_def mk_field_def
        fmf_createAlloc_def deref_def ptr_val_def Let_def upt_rec)
  obtain b1 v1 where r1: "d_surface_flux ?out ?grad ?D1 ?sg 0 = Inr (RET_OK, ?out\<lparr>val0 := b1, val := v1\<rparr>)"
    and e1: "\<forall>ii<nCell ?out. entry (?out\<lparr>val0 := b1, val := v1\<rparr>) ii 0 0 0
                = (if (0::int) = 1 then flux_sum ?grad ?D1 ?sg ii * (1 / entry (sg_area ?sg) ii 0 0 0)
                   else flux_sum ?grad ?D1 ?sg ii)"
    using d_surface_flux_cells [OF sh(1), of 0] unfolding if_not_P [OF n] by blast
  obtain b2 v2 where r2: "d_surface_flux ?out ?grad ?D2 ?sg 0 = Inr (RET_OK, ?out\<lparr>val0 := b2, val := v2\<rparr>)"
    and e2: "\<forall>ii<nCell ?out. entry (?out\<lparr>val0 := b2, val := v2\<rparr>) ii 0 0 0
                = (if (0::int) = 1 then flux_sum ?grad ?D2 ?sg ii * (1 / entry (sg_area ?sg) ii 0 0 0)
                   else flux_sum ?grad ?D2 ?sg ii)"
    using d_surface_flux_cells [OF sh(2), of 0] unfolding if_not_P [OF n] by blast
  have "entry (?out\<lparr>val0 := b1, val := v1\<rparr>) 1 0 0 0 = 2 * ([1, 0, 0, 1] ! 6 + 2 * [1, 0, 0, 1] ! 7)"
    using e1 one f1 by simp
  moreover have "entry (?out\<lparr>val0 := b2, val := v2\<rparr>) 1 0 0 0 = 4"
    using e2 one f2 by simp
  moreover have "2 * ([1, 0, 0, 1 :: real] ! 2 + 2 * [1, 0, 0, 1] ! 3) = 4"
    "sized ?D1" "val (FMF_SetCell ?D1 1) = 4" "\<not> in_buffer (FMF_SetCell ?D1 1) 1"
    "in_buffer (set_cell_coef ?D1 1) 4"
    by (simp_all add: sized_def in_buffer_def FMF_SetCell_def set_cell_coef_def cellSize_def
        mk_field_def)
  ultimately show ?thesis using r1 r2 by blast
qed

section \<open>The gradient-left action on a matrix with two columns\<close>

text \<open>
  Claim C4 says that \<open>laplace_act_g_m\<close> writes the product \<open>G M\<close>. With the
  2-D gradient \<open>G\<close> the identity on two local dofs and \<open>M\<close> the matrix of rows
  \<open>(1, 2)\<close> and \<open>(3, 4)\<close>, the product is \<open>M\<close>, stored as \<open>1, 2, 3, 4\<close>. The code
  stores the sums of column \<open>ic\<close> at \<open>pout[ic]\<close> and \<open>pout[ic + 1]\<close>: column 1
  overwrites entry \<open>(1, 0)\<close> of column 0, and the last value of the slice is
  never written.
\<close>

theorem laplace_act_g_m_two_columns:
  "laplace_act_g_m (mk_field 1 1 2 2 [0, 0, 0, 0]) (mk_field 1 1 2 2 [1, 0, 0, 1])
       (mk_field 1 1 2 2 [1, 2, 3, 4 :: int])
     = (RET_OK, mk_field 1 1 2 2 [1, 2, 4, 0])"
  by code_simp

section \<open>Symmetry and definiteness of the Laplace matrix\<close>



section \<open>The mean flux and the facet area\<close>

text \<open>
  Claim C6, as stated: for every cell and all valid inputs, \<open>d_surface_flux\<close> with
  \<open>mode = 1\<close> returns exactly the value it returns with \<open>mode = 0\<close>, divided by the
  facet area of the cell. The code does not divide: it multiplies the total by
  the reciprocal \<^verbatim>\<open>1.0 / sg->area->val[0]\<close> (line 599), and in the arithmetic of
  the code the reciprocal is rounded. One cell in 2-D with one quadrature point,
  the identity as coefficient, gradient \<open>(5, 0)\<close>, normal \<open>(1, 0)\<close>, weight 1 and
  facet area 3: the total is 5, the mean is \<open>7505999378950826 / 2^52\<close>
  (1.6666666666666665), and 5 divided by 3 is the double \<open>7505999378950827 /
  2^52\<close> (1.6666666666666667); the mean is not the exact quotient \<open>5/3\<close> either.
\<close>

theorem d_surface_flux_mean_rounded:
  "valid_surface_flux (mk_field 1 1 1 1 [Float64 0]) (mk_field 1 1 2 1 [Float64 5, Float64 0])
      (mk_field 1 1 2 2 [Float64 1, Float64 0, Float64 0, Float64 1])
      \<lparr>sg_normal = mk_field 1 1 2 1 [Float64 1, Float64 0], sg_det = mk_field 1 1 1 1 [Float64 1],
       sg_area = mk_field 1 1 1 1 [Float64 3]\<rparr>
   \<and> entry (mk_field 1 1 1 1 [Float64 3]) 0 0 0 0 \<noteq> 0
   \<and> d_surface_flux (mk_field 1 1 1 1 [Float64 0]) (mk_field 1 1 2 1 [Float64 5, Float64 0])
      (mk_field 1 1 2 2 [Float64 1, Float64 0, Float64 0, Float64 1])
      \<lparr>sg_normal = mk_field 1 1 2 1 [Float64 1, Float64 0], sg_det = mk_field 1 1 1 1 [Float64 1],
       sg_area = mk_field 1 1 1 1 [Float64 3]\<rparr> 0
     = Inr (RET_OK, mk_field 1 1 1 1 [Float64 5])
   \<and> d_surface_flux (mk_field 1 1 1 1 [Float64 0]) (mk_field 1 1 2 1 [Float64 5, Float64 0])
      (mk_field 1 1 2 2 [Float64 1, Float64 0, Float64 0, Float64 1])
      \<lparr>sg_normal = mk_field 1 1 2 1 [Float64 1, Float64 0], sg_det = mk_field 1 1 1 1 [Float64 1],
       sg_area = mk_field 1 1 1 1 [Float64 3]\<rparr> 1
     = Inr (RET_OK, mk_field 1 1 1 1 [Float64 (7505999378950826 / 2 ^ 52)])
   \<and> entry (mk_field 1 1 1 1 [Float64 5]) 0 0 0 0 / entry (mk_field 1 1 1 1 [Float64 3]) 0 0 0 0
     = Float64 (7505999378950827 / 2 ^ 52)
   \<and> entry (mk_field 1 1 1 1 [Float64 (7505999378950826 / 2 ^ 52)]) 0 0 0 0
     \<noteq> entry (mk_field 1 1 1 1 [Float64 5]) 0 0 0 0 / entry (mk_field 1 1 1 1 [Float64 3]) 0 0 0 0
   \<and> (7505999378950826 / 2 ^ 52 :: rat) \<noteq> 5 / 3"
proof -
  have v: "valid_surface_flux (mk_field 1 1 1 1 [Float64 0]) (mk_field 1 1 2 1 [Float64 5, Float64 0])
      (mk_field 1 1 2 2 [Float64 1, Float64 0, Float64 0, Float64 1])
      \<lparr>sg_normal = mk_field 1 1 2 1 [Float64 1, Float64 0], sg_det = mk_field 1 1 1 1 [Float64 1],
       sg_area = mk_field 1 1 1 1 [Float64 3]\<rparr>"
    by (simp add: valid_surface_flux_def mk_field_def sized_def cellSize_def)
  have a: "entry (mk_field 1 1 1 1 [Float64 3]) 0 0 0 0 \<noteq> 0"
    by (simp add: entry_def mk_field_def cellSize_def zero_float64_def)
  have t: "d_surface_flux (mk_field 1 1 1 1 [Float64 0]) (mk_field 1 1 2 1 [Float64 5, Float64 0])
      (mk_field 1 1 2 2 [Float64 1, Float64 0, Float64 0, Float64 1])
      \<lparr>sg_normal = mk_field 1 1 2 1 [Float64 1, Float64 0], sg_det = mk_field 1 1 1 1 [Float64 1],
       sg_area = mk_field 1 1 1 1 [Float64 3]\<rparr> 0
     = Inr (RET_OK, mk_field 1 1 1 1 [Float64 5])"
    by code_simp
  have m: "d_surface_flux (mk_field 1 1 1 1 [Float64 0]) (mk_field 1 1 2 1 [Float64 5, Float64 0])
      (mk_field 1 1 2 2 [Float64 1, Float64 0, Float64 0, Float64 1])
      \<lparr>sg_normal = mk_field 1 1 2 1 [Float64 1, Float64 0], sg_det = mk_field 1 1 1 1 [Float64 1],
       sg_area = mk_field 1 1 1 1 [Float64 3]\<rparr> 1
     = Inr (RET_OK, mk_field 1 1 1 1 [Float64 (7505999378950826 / 2 ^ 52)])"
    by code_simp
  have q: "entry (mk_field 1 1 1 1 [Float64 5]) 0 0 0 0 / entry (mk_field 1 1 1 1 [Float64 3]) 0 0 0 0
     = Float64 (7505999378950827 / 2 ^ 52)"
    by code_simp
  have n: "entry (mk_field 1 1 1 1 [Float64 (7505999378950826 / 2 ^ 52)]) 0 0 0 0
     \<noteq> entry (mk_field 1 1 1 1 [Float64 5]) 0 0 0 0 / entry (mk_field 1 1 1 1 [Float64 3]) 0 0 0 0"
    by code_simp
  have r: "(7505999378950826 / 2 ^ 52 :: rat) \<noteq> 5 / 3"
    by simp
  show ?thesis using v a t m q n r by (intro conjI)
qed

text \<open>
  Claim C6, amended: for every cell and all valid inputs with nonzero facet
  areas, the value \<open>d_surface_flux\<close> returns with \<open>mode = 1\<close> is the value it returns
  with \<open>mode = 0\<close> multiplied by the reciprocal \<open>1 / area\<close> of the facet area of the
  cell, in the arithmetic of the code. No law of arithmetic is assumed, so the
  theorem holds of the doubles; in exact arithmetic the product is the
  quotient (\<open>d_surface_flux_mean_exact\<close> below).
\<close>

theorem d_surface_flux_mean:
  fixes out :: "'a::{zero,one,plus,times,inverse} FMField"
  assumes valid: "valid_surface_flux out grad mtxD sg"
    and nz: "\<forall>ii<nCell out. entry (sg_area sg) ii 0 0 0 \<noteq> 0"
  shows "\<exists>tot mean. d_surface_flux out grad mtxD sg 0 = Inr (RET_OK, tot)
     \<and> d_surface_flux out grad mtxD sg 1 = Inr (RET_OK, mean)
     \<and> (\<forall>ii<nCell out. entry mean ii 0 0 0
            = entry tot ii 0 0 0 * (1 / entry (sg_area sg) ii 0 0 0))"
proof -
  have n0: "\<not> ((0::int) = 1 \<and> (\<exists>ii<nCell out. entry (sg_area sg) ii 0 0 0 = 0))" by simp
  have n1: "\<not> ((1::int) = 1 \<and> (\<exists>ii<nCell out. entry (sg_area sg) ii 0 0 0 = 0))"
    using nz by simp
  obtain b0 v0 where r0: "d_surface_flux out grad mtxD sg 0 = Inr (RET_OK, out\<lparr>val0 := b0, val := v0\<rparr>)"
    and e0: "\<forall>ii<nCell out. entry (out\<lparr>val0 := b0, val := v0\<rparr>) ii 0 0 0
                = (if (0::int) = 1 then flux_sum grad mtxD sg ii * (1 / entry (sg_area sg) ii 0 0 0)
                   else flux_sum grad mtxD sg ii)"
    using d_surface_flux_cells [OF valid_surface_flux_shapes [OF valid], of 0] unfolding if_not_P [OF n0] by blast
  obtain b1 v1 where r1: "d_surface_flux out grad mtxD sg 1 = Inr (RET_OK, out\<lparr>val0 := b1, val := v1\<rparr>)"
    and e1: "\<forall>ii<nCell out. entry (out\<lparr>val0 := b1, val := v1\<rparr>) ii 0 0 0
                = (if (1::int) = 1 then flux_sum grad mtxD sg ii * (1 / entry (sg_area sg) ii 0 0 0)
                   else flux_sum grad mtxD sg ii)"
    using d_surface_flux_cells [OF valid_surface_flux_shapes [OF valid], of 1] unfolding if_not_P [OF n1] by blast
  have "\<forall>ii<nCell out. entry (out\<lparr>val0 := b1, val := v1\<rparr>) ii 0 0 0
          = entry (out\<lparr>val0 := b0, val := v0\<rparr>) ii 0 0 0 * (1 / entry (sg_area sg) ii 0 0 0)"
    using e0 e1 by simp
  then show ?thesis using r0 r1 by blast
qed

text \<open>Two cells of doubles in 2-D with one quadrature point: normals \<open>(1, 0)\<close>
  and \<open>(0, 1)\<close>, weights 1 and 2, facet areas 3 and 7, the identity as
  coefficient.\<close>

theorem d_surface_flux_mean_witness:
  "valid_surface_flux (mk_field 2 1 1 1 [Float64 0, Float64 0]) (mk_field 2 1 2 1 [Float64 3, Float64 1, Float64 1, Float64 2])
      (mk_field 2 1 2 2 [Float64 1, Float64 0, Float64 0, Float64 1, Float64 1, Float64 0, Float64 0, Float64 1])
      \<lparr>sg_normal = mk_field 2 1 2 1 [Float64 1, Float64 0, Float64 0, Float64 1], sg_det = mk_field 2 1 1 1 [Float64 1, Float64 2],
       sg_area = mk_field 2 1 1 1 [Float64 3, Float64 7]\<rparr>
   \<and> entry (mk_field 2 1 1 1 [Float64 3, Float64 7]) 0 0 0 0 \<noteq> 0
   \<and> entry (mk_field 2 1 1 1 [Float64 3, Float64 7]) 1 0 0 0 \<noteq> 0
   \<and> (\<exists>tot mean.
        d_surface_flux (mk_field 2 1 1 1 [Float64 0, Float64 0]) (mk_field 2 1 2 1 [Float64 3, Float64 1, Float64 1, Float64 2])
          (mk_field 2 1 2 2 [Float64 1, Float64 0, Float64 0, Float64 1, Float64 1, Float64 0, Float64 0, Float64 1])
          \<lparr>sg_normal = mk_field 2 1 2 1 [Float64 1, Float64 0, Float64 0, Float64 1], sg_det = mk_field 2 1 1 1 [Float64 1, Float64 2],
       sg_area = mk_field 2 1 1 1 [Float64 3, Float64 7]\<rparr> 0 = Inr (RET_OK, tot)
      \<and> d_surface_flux (mk_field 2 1 1 1 [Float64 0, Float64 0]) (mk_field 2 1 2 1 [Float64 3, Float64 1, Float64 1, Float64 2])
          (mk_field 2 1 2 2 [Float64 1, Float64 0, Float64 0, Float64 1, Float64 1, Float64 0, Float64 0, Float64 1])
          \<lparr>sg_normal = mk_field 2 1 2 1 [Float64 1, Float64 0, Float64 0, Float64 1], sg_det = mk_field 2 1 1 1 [Float64 1, Float64 2],
       sg_area = mk_field 2 1 1 1 [Float64 3, Float64 7]\<rparr> 1 = Inr (RET_OK, mean)
      \<and> entry mean 0 0 0 0 = entry tot 0 0 0 0 * (1 / Float64 3)
      \<and> entry mean 1 0 0 0 = entry tot 1 0 0 0 * (1 / Float64 7))"
proof -
  let ?out = "(mk_field 2 1 1 1 [Float64 0, Float64 0])"
  let ?grad = "(mk_field 2 1 2 1 [Float64 3, Float64 1, Float64 1, Float64 2])"
  let ?mtxD = "(mk_field 2 1 2 2 [Float64 1, Float64 0, Float64 0, Float64 1, Float64 1, Float64 0, Float64 0, Float64 1])"
  let ?area = "(mk_field 2 1 1 1 [Float64 3, Float64 7])"
  let ?sg = "\<lparr>sg_normal = mk_field 2 1 2 1 [Float64 1, Float64 0, Float64 0, Float64 1], sg_det = mk_field 2 1 1 1 [Float64 1, Float64 2],
       sg_area = mk_field 2 1 1 1 [Float64 3, Float64 7]\<rparr>"
  have v: "valid_surface_flux ?out ?grad ?mtxD ?sg"
    by (simp add: valid_surface_flux_def mk_field_def sized_def cellSize_def)
  have a: "entry ?area 0 0 0 0 = Float64 3" "entry ?area 1 0 0 0 = Float64 7"
    by (simp_all add: entry_def mk_field_def cellSize_def)
  have z: "entry ?area 0 0 0 0 \<noteq> 0" "entry ?area 1 0 0 0 \<noteq> 0"
    unfolding a by (simp_all add: zero_float64_def)
  have nz: "\<forall>ii<nCell ?out. entry (sg_area ?sg) ii 0 0 0 \<noteq> 0"
    using z by (simp add: mk_field_def less_2_cases_iff)
  obtain tot mean where r: "d_surface_flux ?out ?grad ?mtxD ?sg 0 = Inr (RET_OK, tot)"
      "d_surface_flux ?out ?grad ?mtxD ?sg 1 = Inr (RET_OK, mean)"
    and e: "\<forall>ii<nCell ?out. entry mean ii 0 0 0
              = entry tot ii 0 0 0 * (1 / entry (sg_area ?sg) ii 0 0 0)"
    using d_surface_flux_mean [OF v nz] by blast
  have "entry mean 0 0 0 0 = entry tot 0 0 0 0 * (1 / Float64 3)"
    "entry mean 1 0 0 0 = entry tot 1 0 0 0 * (1 / Float64 7)"
    using e a by (simp_all add: mk_field_def)
  then show ?thesis using v z r by blast
qed

text \<open>In exact arithmetic (a field) the product with the reciprocal is the
  quotient, and the claim holds as it is stated.\<close>

lemma d_surface_flux_mean_exact:
  fixes out :: "'a::field FMField"
  assumes valid: "valid_surface_flux out grad mtxD sg"
    and nz: "\<forall>ii<nCell out. entry (sg_area sg) ii 0 0 0 \<noteq> 0"
  shows "\<exists>tot mean. d_surface_flux out grad mtxD sg 0 = Inr (RET_OK, tot)
     \<and> d_surface_flux out grad mtxD sg 1 = Inr (RET_OK, mean)
     \<and> (\<forall>ii<nCell out. entry mean ii 0 0 0 = entry tot ii 0 0 0 / entry (sg_area sg) ii 0 0 0)"
proof -
  have n0: "\<not> ((0::int) = 1 \<and> (\<exists>ii<nCell out. entry (sg_area sg) ii 0 0 0 = 0))" by simp
  have n1: "\<not> ((1::int) = 1 \<and> (\<exists>ii<nCell out. entry (sg_area sg) ii 0 0 0 = 0))"
    using nz by simp
  obtain b0 v0 where r0: "d_surface_flux out grad mtxD sg 0 = Inr (RET_OK, out\<lparr>val0 := b0, val := v0\<rparr>)"
    and e0: "\<forall>ii<nCell out. entry (out\<lparr>val0 := b0, val := v0\<rparr>) ii 0 0 0
                = (if (0::int) = 1 then flux_sum grad mtxD sg ii * (1 / entry (sg_area sg) ii 0 0 0)
                   else flux_sum grad mtxD sg ii)"
    using d_surface_flux_cells [OF valid_surface_flux_shapes [OF valid], of 0] unfolding if_not_P [OF n0] by blast
  obtain b1 v1 where r1: "d_surface_flux out grad mtxD sg 1 = Inr (RET_OK, out\<lparr>val0 := b1, val := v1\<rparr>)"
    and e1: "\<forall>ii<nCell out. entry (out\<lparr>val0 := b1, val := v1\<rparr>) ii 0 0 0
                = (if (1::int) = 1 then flux_sum grad mtxD sg ii * (1 / entry (sg_area sg) ii 0 0 0)
                   else flux_sum grad mtxD sg ii)"
    using d_surface_flux_cells [OF valid_surface_flux_shapes [OF valid], of 1] unfolding if_not_P [OF n1] by blast
  have "\<forall>ii<nCell out. entry (out\<lparr>val0 := b1, val := v1\<rparr>) ii 0 0 0
          = entry (out\<lparr>val0 := b0, val := v0\<rparr>) ii 0 0 0 / entry (sg_area sg) ii 0 0 0"
    using e0 e1 by simp
  then show ?thesis using r0 r1 by blast
qed

section \<open>The two coupling matrices are transposes of each other\<close>

text \<open>
  Claim C7: for valid inputs of \<open>dw_diffusion_coupling\<close> in matrix mode, the
  per-element matrix computed with \<open>mode > 0\<close> (\<open>bf\<^sup>T gtd\<^sup>T\<close>) is the transpose
  of the one computed with \<open>mode \<le> 0\<close> (\<open>gtd bf\<close>). The theorem asks of \<open>bf\<close>
  only its shape, one row of \<open>nEP\<close> values; the matched spaces of the claim,
  \<open>bf\<close> equal to the gradient buffer, are the case of a gradient of one row.
  The only law of arithmetic used is that the multiplication commutes, so the
  equality is exact for IEEE doubles too.
\<close>

theorem dw_diffusion_coupling_transpose:
  fixes out :: "'a::{zero,plus,ab_semigroup_mult} FMField"
  assumes valid: "valid_coupling out mtxD bf vg nEP elList elList_nRow"
    and diff: "isDiff \<noteq> 0" and m1: "0 < mode1" and m2: "mode2 \<le> 0"
  shows "\<exists>o1 o2.
       dw_diffusion_coupling out state offset mtxD bf vg conn nEl nEP elList elList_nRow isDiff mode1
         = Inr (RET_OK, o1)
     \<and> dw_diffusion_coupling out state offset mtxD bf vg conn nEl nEP elList elList_nRow isDiff mode2
         = Inr (RET_OK, o2)
     \<and> (\<forall>ii<elList_nRow. \<forall>i<nEP. \<forall>j<nEP. entry o1 ii 0 i j = entry o2 ii 0 j i)"
proof -
  obtain b1 v1 where r1:
      "dw_diffusion_coupling out state offset mtxD bf vg conn nEl nEP elList elList_nRow isDiff mode1
         = Inr (RET_OK, out\<lparr>val0 := b1, val := v1\<rparr>)"
    and e1: "\<forall>ii<elList_nRow. \<forall>i<nEP. \<forall>j<nEP.
                 entry (out\<lparr>val0 := b1, val := v1\<rparr>) ii 0 i j
                   = coupling_sum mode1 mtxD bf vg elList ii i j"
    using dw_diffusion_coupling_matrix_cells [OF valid diff] by blast
  obtain b2 v2 where r2:
      "dw_diffusion_coupling out state offset mtxD bf vg conn nEl nEP elList elList_nRow isDiff mode2
         = Inr (RET_OK, out\<lparr>val0 := b2, val := v2\<rparr>)"
    and e2: "\<forall>ii<elList_nRow. \<forall>i<nEP. \<forall>j<nEP.
                 entry (out\<lparr>val0 := b2, val := v2\<rparr>) ii 0 i j
                   = coupling_sum mode2 mtxD bf vg elList ii i j"
    using dw_diffusion_coupling_matrix_cells [OF valid diff] by blast
  have m: "nCol (vg_bfGM vg) = nEP" and bf: "nRow bf = 1"
    using valid by (simp_all add: valid_coupling_def)
  have tr: "coupling_sum mode1 mtxD bf vg elList ii i j = coupling_sum mode2 mtxD bf vg elList ii j i"
    if "i < nEP" "j < nEP" for ii i j
  proof -
    have "nRow bf = nCol (coupling_gtd mtxD vg elList ii)"
      using bf by (simp add: coupling_gtd_def fmf_createAlloc_def)
    then show ?thesis
      using m1 m2 that
      by (simp add: coupling_sum_def Let_def m product_entry_transpose)
  qed
  show ?thesis
    using r1 r2 e1 e2 tr
    by (intro exI [of _ "out\<lparr>val0 := b1, val := v1\<rparr>"] exI [of _ "out\<lparr>val0 := b2, val := v2\<rparr>"])
      simp
qed

text \<open>Matched spaces: \<open>bf\<close> is the gradient buffer itself, a gradient of one
  row on two local dofs.\<close>

theorem dw_diffusion_coupling_transpose_witness:
  "valid_coupling (mk_field 1 1 2 2 [0, 0, 0, 0]) (mk_field 1 1 1 1 [5 :: int])
       (mk_field 1 1 1 2 [2, 3])
       \<lparr>vg_bfGM = mk_field 1 1 1 2 [2, 3], vg_det = mk_field 1 1 1 1 [1]\<rparr> 2 [0] 1
   \<and> (1 :: int) \<noteq> 0 \<and> (0 :: int) < 1 \<and> (0 :: int) \<le> 0
   \<and> (\<exists>o1 o2.
        dw_diffusion_coupling (mk_field 1 1 2 2 [0, 0, 0, 0]) (mk_field 1 1 2 1 [0, 0]) 0
          (mk_field 1 1 1 1 [5 :: int]) (mk_field 1 1 1 2 [2, 3])
          \<lparr>vg_bfGM = mk_field 1 1 1 2 [2, 3], vg_det = mk_field 1 1 1 1 [1]\<rparr>
          [0, 1] 1 2 [0] 1 1 1 = Inr (RET_OK, o1)
      \<and> dw_diffusion_coupling (mk_field 1 1 2 2 [0, 0, 0, 0]) (mk_field 1 1 2 1 [0, 0]) 0
          (mk_field 1 1 1 1 [5 :: int]) (mk_field 1 1 1 2 [2, 3])
          \<lparr>vg_bfGM = mk_field 1 1 1 2 [2, 3], vg_det = mk_field 1 1 1 1 [1]\<rparr>
          [0, 1] 1 2 [0] 1 1 0 = Inr (RET_OK, o2)
      \<and> entry o1 0 0 0 1 = entry o2 0 0 1 0)"
proof -
  have v: "valid_coupling (mk_field 1 1 2 2 [0, 0, 0, 0]) (mk_field 1 1 1 1 [5 :: int])
       (mk_field 1 1 1 2 [2, 3])
       \<lparr>vg_bfGM = mk_field 1 1 1 2 [2, 3], vg_det = mk_field 1 1 1 1 [1]\<rparr> 2 [0] 1"
    by (simp add: valid_coupling_def mk_field_def sized_def cellSize_def)
  have d: "(1 :: int) \<noteq> 0" "(0 :: int) < 1" "(0 :: int) \<le> 0" by simp_all
  obtain o1 o2 where r:
      "dw_diffusion_coupling (mk_field 1 1 2 2 [0, 0, 0, 0]) (mk_field 1 1 2 1 [0, 0]) 0
          (mk_field 1 1 1 1 [5 :: int]) (mk_field 1 1 1 2 [2, 3])
          \<lparr>vg_bfGM = mk_field 1 1 1 2 [2, 3], vg_det = mk_field 1 1 1 1 [1]\<rparr>
          [0, 1] 1 2 [0] 1 1 1 = Inr (RET_OK, o1)"
      "dw_diffusion_coupling (mk_field 1 1 2 2 [0, 0, 0, 0]) (mk_field 1 1 2 1 [0, 0]) 0
          (mk_field 1 1 1 1 [5 :: int]) (mk_field 1 1 1 2 [2, 3])
          \<lparr>vg_bfGM = mk_field 1 1 1 2 [2, 3], vg_det = mk_field 1 1 1 1 [1]\<rparr>
          [0, 1] 1 2 [0] 1 1 0 = Inr (RET_OK, o2)"
    and e: "\<forall>ii<(1::nat). \<forall>i<(2::nat). \<forall>j<(2::nat). entry o1 ii 0 i j = entry o2 ii 0 j i"
    using dw_diffusion_coupling_transpose [OF v d, of "mk_field 1 1 2 1 [0, 0]" 0 "[0, 1]" 1]
    by blast
  have "entry o1 0 0 0 1 = entry o2 0 0 1 0"
    using e by simp
  then show ?thesis using v d r by blast
qed
section \<open>Every evaluator overwrites its output\<close>



section \<open>The division by the facet area\<close>

text \<open>
  Claim C9: with \<open>mode = 1\<close>, \<open>d_surface_flux\<close> divides by the facet area of each
  cell it processes, with no test of the divisor. For valid inputs the
  evaluation ends in the fault of the division exactly when some cell of the
  batch has a zero facet area; when every facet area is nonzero that branch is
  not reached and the evaluator returns \<open>RET_OK\<close>.
\<close>

theorem d_surface_flux_division:
  fixes out :: "'a::{zero,one,plus,times,inverse} FMField"
  assumes valid: "valid_surface_flux out grad mtxD sg"
  shows "(d_surface_flux out grad mtxD sg 1 = Inl ZeroDivide
            \<longleftrightarrow> (\<exists>ii<nCell out. entry (sg_area sg) ii 0 0 0 = 0))
       \<and> ((\<forall>ii<nCell out. entry (sg_area sg) ii 0 0 0 \<noteq> 0)
            \<longrightarrow> (\<exists>out'. d_surface_flux out grad mtxD sg 1 = Inr (RET_OK, out')))"
  using d_surface_flux_cells [OF valid_surface_flux_shapes [OF valid], of 1]
  by (cases "\<exists>ii<nCell out. entry (sg_area sg) ii 0 0 0 = 0") auto

text \<open>The two cells of the previous witness, and the same cells with the facet
  area of the second one zero.\<close>

theorem d_surface_flux_division_witness:
  "valid_surface_flux (mk_field 2 1 1 1 [0, 0]) (mk_field 2 1 2 1 [3, 1, 1, 2 :: real])
      (mk_field 2 1 2 2 [1, 0, 0, 1, 1, 0, 0, 1])
      \<lparr>sg_normal = mk_field 2 1 2 1 [1, 0, 0, 1], sg_det = mk_field 2 1 1 1 [1, 2],
       sg_area = mk_field 2 1 1 1 [2, 4]\<rparr>
   \<and> entry (mk_field 2 1 1 1 [2, 4 :: real]) 0 0 0 0 \<noteq> 0
   \<and> entry (mk_field 2 1 1 1 [2, 4 :: real]) 1 0 0 0 \<noteq> 0
   \<and> (\<exists>out'.
        d_surface_flux (mk_field 2 1 1 1 [0, 0]) (mk_field 2 1 2 1 [3, 1, 1, 2 :: real])
          (mk_field 2 1 2 2 [1, 0, 0, 1, 1, 0, 0, 1])
          \<lparr>sg_normal = mk_field 2 1 2 1 [1, 0, 0, 1], sg_det = mk_field 2 1 1 1 [1, 2],
           sg_area = mk_field 2 1 1 1 [2, 4]\<rparr> 1 = Inr (RET_OK, out'))
   \<and> valid_surface_flux (mk_field 2 1 1 1 [0, 0]) (mk_field 2 1 2 1 [3, 1, 1, 2 :: real])
      (mk_field 2 1 2 2 [1, 0, 0, 1, 1, 0, 0, 1])
      \<lparr>sg_normal = mk_field 2 1 2 1 [1, 0, 0, 1], sg_det = mk_field 2 1 1 1 [1, 2],
       sg_area = mk_field 2 1 1 1 [2, 0]\<rparr>
   \<and> entry (mk_field 2 1 1 1 [2, 0 :: real]) 1 0 0 0 = 0
   \<and> d_surface_flux (mk_field 2 1 1 1 [0, 0]) (mk_field 2 1 2 1 [3, 1, 1, 2 :: real])
          (mk_field 2 1 2 2 [1, 0, 0, 1, 1, 0, 0, 1])
          \<lparr>sg_normal = mk_field 2 1 2 1 [1, 0, 0, 1], sg_det = mk_field 2 1 1 1 [1, 2],
           sg_area = mk_field 2 1 1 1 [2, 0]\<rparr> 1 = Inl ZeroDivide"
proof -
  let ?out = "mk_field 2 1 1 1 [0, 0 :: real]"
  let ?grad = "mk_field 2 1 2 1 [3, 1, 1, 2 :: real]"
  let ?mtxD = "mk_field 2 1 2 2 [1, 0, 0, 1, 1, 0, 0, 1 :: real]"
  let ?sg = "\<lambda>a. \<lparr>sg_normal = mk_field 2 1 2 1 [1, 0, 0, 1 :: real], sg_det = mk_field 2 1 1 1 [1, 2],
              sg_area = mk_field 2 1 1 1 [2, a]\<rparr>"
  have v: "valid_surface_flux ?out ?grad ?mtxD (?sg a)" for a
    by (simp add: valid_surface_flux_def mk_field_def sized_def cellSize_def)
  have a: "entry (mk_field 2 1 1 1 [2, x :: real]) 0 0 0 0 = 2"
    "entry (mk_field 2 1 1 1 [2, x :: real]) 1 0 0 0 = x" for x
    by (simp_all add: entry_def mk_field_def cellSize_def)
  have nz: "\<forall>ii<nCell ?out. entry (sg_area (?sg 4)) ii 0 0 0 \<noteq> 0"
    by (simp add: mk_field_def less_2_cases_iff entry_def cellSize_def)
  have z: "\<exists>ii<nCell ?out. entry (sg_area (?sg 0)) ii 0 0 0 = 0"
    by (rule exI [of _ 1]) (simp add: mk_field_def entry_def cellSize_def)
  have "\<exists>out'. d_surface_flux ?out ?grad ?mtxD (?sg 4) 1 = Inr (RET_OK, out')"
    using d_surface_flux_division [OF v [of 4]] nz by blast
  moreover have "d_surface_flux ?out ?grad ?mtxD (?sg 0) 1 = Inl ZeroDivide"
    using d_surface_flux_division [OF v [of 0]] z by blast
  ultimately show ?thesis using v [of 4] v [of 0] a [of 4] a [of 0] by simp
qed

section \<open>The Laplace matrix does not depend on the gradient argument\<close>

text \<open>
  Claim C10: in matrix mode (\<open>isDiff\<close> nonzero) \<open>dw_laplace\<close> never reads its
  \<open>grad\<close> argument: two invocations that differ only in \<open>grad\<close> give the same
  status and the same output.
\<close>

theorem dw_laplace_matrix_ignores_grad:
  "isDiff \<noteq> 0 \<Longrightarrow> dw_laplace out grad1 coef vg isDiff = dw_laplace out grad2 coef vg isDiff"
  using dw_laplace_cell_grad [of isDiff grad1 coef vg grad2] by (simp add: dw_laplace_def)

theorem dw_laplace_matrix_ignores_grad_witness:
  "(1 :: int) \<noteq> 0
   \<and> dw_laplace (mk_field 1 1 2 2 [9, 9, 9, 9]) (mk_field 1 1 2 1 [7, 7])
         (mk_field 1 1 1 1 [2 :: int])
         \<lparr>vg_bfGM = mk_field 1 1 2 2 [1, 0, 0, 1], vg_det = mk_field 1 1 1 1 [1]\<rparr> 1
     = dw_laplace (mk_field 1 1 2 2 [9, 9, 9, 9]) (mk_field 1 1 2 1 [8, 8])
         (mk_field 1 1 1 1 [2 :: int])
         \<lparr>vg_bfGM = mk_field 1 1 2 2 [1, 0, 0, 1], vg_det = mk_field 1 1 1 1 [1]\<rparr> 1"
  using dw_laplace_matrix_ignores_grad
    [of 1 "mk_field 1 1 2 2 [9, 9, 9, 9]" "mk_field 1 1 2 1 [7, 7]" "mk_field 1 1 1 1 [2 :: int]"
        "\<lparr>vg_bfGM = mk_field 1 1 2 2 [1, 0, 0, 1], vg_det = mk_field 1 1 1 1 [1]\<rparr>"
        "mk_field 1 1 2 1 [8, 8]"]
  by simp

end
